theory Spec2Isabelle
  imports Main "HOL-Library.AList" "HOL-Library.Sublist"
begin

section \<open>Values\<close>

text \<open>
  The workflow configuration is what \<^verbatim>\<open>json.load\<close> returns: null, booleans, integers,
  strings, lists and objects with string keys. An object is an association list in document
  order; its keys are distinct. Floating-point numbers are left out of the model.
\<close>

datatype json = JNull | JBool bool | JInt int | JStr string
  | JList "json list" | JDict "(string \<times> json) list"

text \<open>
  Run-time data (event payloads, the project state) are Python values. Besides the JSON shapes
  there is \<^verbatim>\<open>collections.defaultdict(int)\<close>, which the Orchestrator stores under
  \<^verbatim>\<open>module_test_retries\<close>. Strings are ASCII text.
\<close>

datatype pyval = PNone | PBool bool | PInt int | PStr string
  | PList "pyval list" | PDict "(string \<times> pyval) list"
  | PDefaultDict "(string \<times> pyval) list"

datatype error = KeyError | TypeError | AttributeError | NotImplementedError
  | Exception string

fun of_json :: "json \<Rightarrow> pyval" where
  "of_json JNull = PNone"
| "of_json (JBool b) = PBool b"
| "of_json (JInt i) = PInt i"
| "of_json (JStr s) = PStr s"
| "of_json (JList xs) = PList (map of_json xs)"
| "of_json (JDict d) = PDict (map (\<lambda>kv. (fst kv, of_json (snd kv))) d)"

text \<open>
  Python's \<^verbatim>\<open>==\<close>: \<^verbatim>\<open>True == 1\<close>, lists compare element by element, dictionaries
  compare as sets of items whatever their order, and a defaultdict equals the dict with the
  same items.
\<close>

fun py_eq :: "pyval \<Rightarrow> pyval \<Rightarrow> bool"
  and py_eq_list :: "pyval list \<Rightarrow> pyval list \<Rightarrow> bool"
  and py_eq_items :: "(string \<times> pyval) list \<Rightarrow> (string \<times> pyval) list \<Rightarrow> bool" where
  "py_eq PNone w = (w = PNone)"
| "py_eq (PBool a) w = (case w of PBool b \<Rightarrow> a = b
      | PInt j \<Rightarrow> (if a then 1 else 0) = j | _ \<Rightarrow> False)"
| "py_eq (PInt i) w = (case w of PBool b \<Rightarrow> i = (if b then 1 else 0)
      | PInt j \<Rightarrow> i = j | _ \<Rightarrow> False)"
| "py_eq (PStr s) w = (w = PStr s)"
| "py_eq (PList xs) w = (case w of PList ys \<Rightarrow> py_eq_list xs ys | _ \<Rightarrow> False)"
| "py_eq (PDict d) w = (case w of PDict e \<Rightarrow> length d = length e \<and> py_eq_items d e
      | PDefaultDict e \<Rightarrow> length d = length e \<and> py_eq_items d e | _ \<Rightarrow> False)"
| "py_eq (PDefaultDict d) w = (case w of PDict e \<Rightarrow> length d = length e \<and> py_eq_items d e
      | PDefaultDict e \<Rightarrow> length d = length e \<and> py_eq_items d e | _ \<Rightarrow> False)"
| "py_eq_list [] ys = (ys = [])"
| "py_eq_list (x # xs) ys =
     (case ys of [] \<Rightarrow> False | y # ys' \<Rightarrow> py_eq x y \<and> py_eq_list xs ys')"
| "py_eq_items [] e = True"
| "py_eq_items ((k, v) # d) e =
     (case map_of e k of None \<Rightarrow> False | Some w \<Rightarrow> py_eq v w \<and> py_eq_items d e)"

text \<open>Truth value testing: \<^verbatim>\<open>if x\<close>, \<^verbatim>\<open>not x\<close>.\<close>

fun py_truthy :: "pyval \<Rightarrow> bool" where
  "py_truthy PNone = False"
| "py_truthy (PBool b) = b"
| "py_truthy (PInt i) = (i \<noteq> 0)"
| "py_truthy (PStr s) = (s \<noteq> [])"
| "py_truthy (PList xs) = (xs \<noteq> [])"
| "py_truthy (PDict d) = (d \<noteq> [])"
| "py_truthy (PDefaultDict d) = (d \<noteq> [])"

text \<open>\<^verbatim>\<open>isinstance(v, dict)\<close>; a defaultdict is a dict.\<close>

fun is_dict :: "pyval \<Rightarrow> bool" where
  "is_dict (PDict d) = True"
| "is_dict (PDefaultDict d) = True"
| "is_dict v = False"

text \<open>
  \<^verbatim>\<open>v.get(k)\<close>: \<open>Inr None\<close> when the key is absent (a defaultdict does not create the
  entry on \<^verbatim>\<open>get\<close>), \<^verbatim>\<open>AttributeError\<close> when \<open>v\<close> has no method \<^verbatim>\<open>get\<close>.
\<close>

fun py_get :: "pyval \<Rightarrow> string \<Rightarrow> error + pyval option" where
  "py_get (PDict d) k = Inr (map_of d k)"
| "py_get (PDefaultDict d) k = Inr (map_of d k)"
| "py_get v k = Inl AttributeError"

fun json_get :: "json \<Rightarrow> string \<Rightarrow> error + json option" where
  "json_get (JDict d) k = Inr (map_of d k)"
| "json_get v k = Inl AttributeError"

text \<open>\<^verbatim>\<open>v.values()\<close>.\<close>

fun py_values :: "pyval \<Rightarrow> error + pyval list" where
  "py_values (PDict d) = Inr (map snd d)"
| "py_values (PDefaultDict d) = Inr (map snd d)"
| "py_values v = Inl AttributeError"

text \<open>\<^verbatim>\<open>x in xs\<close> for a list \<open>xs\<close>.\<close>

fun py_in :: "pyval \<Rightarrow> pyval list \<Rightarrow> bool" where
  "py_in x [] = False"
| "py_in x (y # ys) = (py_eq x y \<or> py_in x ys)"

section \<open>Workflow engine: conditions of actions\<close>

text \<open>
  The loop of \<^verbatim>\<open>_evaluate_condition\<close> over \<^verbatim>\<open>module_statuses.values()\<close>: it stops with
  \<open>False\<close> at the first status that is not in \<^verbatim>\<open>['completed']\<close>.
\<close>

fun all_completed :: "pyval list \<Rightarrow> bool" where
  "all_completed [] = True"
| "all_completed (status # rest) =
     (if \<not> py_in status [PStr ''completed''] then False else all_completed rest)"

text \<open>
  \<^verbatim>\<open>WorkflowEngine._evaluate_condition(action_config, project_state)\<close>. The action comes
  from the configuration; \<^verbatim>\<open>.values()\<close> raises on a truthy value that is not a dict.
\<close>

definition evaluate_condition :: "json \<Rightarrow> pyval \<Rightarrow> error + bool" where
  "evaluate_condition action_config project_state =
     (case json_get action_config ''condition_type'' of
        Inl e \<Rightarrow> Inl e
      | Inr condition_type \<Rightarrow>
          (case json_get action_config ''params'' of
             Inl e \<Rightarrow> Inl e
           | Inr params \<Rightarrow>
               if condition_type = Some (JStr ''all_modules_completed'') then
                 (case py_get project_state ''code_modules_status'' of
                    Inl e \<Rightarrow> Inl e
                  | Inr found \<Rightarrow>
                      (let module_statuses = (case found of None \<Rightarrow> PDict [] | Some m \<Rightarrow> m)
                       in if \<not> py_truthy module_statuses then Inr False
                          else (case py_values module_statuses of
                                  Inl e \<Rightarrow> Inl e
                                | Inr statuses \<Rightarrow> Inr (all_completed statuses))))
               else Inr False))"

section \<open>Workflow engine: conditions of handlers\<close>

text \<open>\<^verbatim>\<open>s.split(c)\<close>: the pieces between the separators; never the empty list.\<close>

fun py_split :: "char \<Rightarrow> string \<Rightarrow> string list" where
  "py_split c [] = [[]]"
| "py_split c (x # xs) =
     (if x = c then [] # py_split c xs
      else (case py_split c xs of [] \<Rightarrow> [[x]] | w # ws \<Rightarrow> (x # w) # ws))"

text \<open>
  The subscription \<^verbatim>\<open>v[k]\<close> with a string key, as the pair of what it evaluates to and
  the container afterwards: a dict raises \<^verbatim>\<open>KeyError\<close> on an absent key, a defaultdict
  stores the default \<open>0\<close> under the key and returns it, and every other value raises
  \<^verbatim>\<open>TypeError\<close>.
\<close>

fun py_getitem :: "pyval \<Rightarrow> string \<Rightarrow> (error + pyval) \<times> pyval" where
  "py_getitem (PDict d) k =
     (case map_of d k of None \<Rightarrow> (Inl KeyError, PDict d) | Some x \<Rightarrow> (Inr x, PDict d))"
| "py_getitem (PDefaultDict d) k =
     (case map_of d k of None \<Rightarrow> (Inr (PInt 0), PDefaultDict (d @ [(k, PInt 0)]))
      | Some x \<Rightarrow> (Inr x, PDefaultDict d))"
| "py_getitem v k = (Inl TypeError, v)"

text \<open>The container \<open>v\<close> with the object stored under \<open>k\<close> in the state \<open>x\<close>.\<close>

fun py_child :: "pyval \<Rightarrow> string \<Rightarrow> pyval \<Rightarrow> pyval" where
  "py_child (PDict d) k x = PDict (AList.update k x d)"
| "py_child (PDefaultDict d) k x = PDefaultDict (AList.update k x d)"
| "py_child v k x = v"

text \<open>
  \<^verbatim>\<open>for part in parts: current = current[part]\<close>, as the pair of the outcome and the
  data the walk started from, after the walk (a defaultdict on the way may have got an entry).
\<close>

fun walk_items :: "string list \<Rightarrow> pyval \<Rightarrow> (error + pyval) \<times> pyval" where
  "walk_items [] v = (Inr v, v)"
| "walk_items (part # parts) v =
     (case py_getitem v part of
        (Inl e, v') \<Rightarrow> (Inl e, v')
      | (Inr x, v') \<Rightarrow>
          (case walk_items parts x of (r, x') \<Rightarrow> (r, py_child v' part x')))"

text \<open>
  The loop of \<^verbatim>\<open>_check_conditions\<close> over the pairs of one condition group, against
  \<open>data\<close> (the event payload or the project state): \<open>Inr (False, _)\<close> is the
  \<^verbatim>\<open>return False\<close> of a mismatch or of a caught \<^verbatim>\<open>KeyError\<close>/\<^verbatim>\<open>TypeError\<close>.
\<close>

fun check_pairs :: "(string \<times> json) list \<Rightarrow> pyval \<Rightarrow> error + (bool \<times> pyval)" where
  "check_pairs [] data = Inr (True, data)"
| "check_pairs ((key, expected_value) # rest) data =
     (case walk_items (py_split (CHR ''.'') key) data of
        (Inl e, data') \<Rightarrow>
          (if e = KeyError \<or> e = TypeError then Inr (False, data') else Inl e)
      | (Inr current_data, data') \<Rightarrow>
          (if \<not> py_eq current_data (of_json expected_value) then Inr (False, data')
           else check_pairs rest data'))"

text \<open>The loop of \<^verbatim>\<open>_check_conditions\<close> over \<^verbatim>\<open>conditions.items()\<close>.\<close>

fun check_groups ::
  "(string \<times> json) list \<Rightarrow> pyval \<Rightarrow> pyval \<Rightarrow> error + (bool \<times> pyval \<times> pyval)" where
  "check_groups [] event_data project_state = Inr (True, event_data, project_state)"
| "check_groups ((condition_type, condition_value) # rest) event_data project_state =
     (if condition_type = ''event_data'' then
        (case condition_value of
           JDict pairs \<Rightarrow>
             (case check_pairs pairs event_data of
                Inl e \<Rightarrow> Inl e
              | Inr (ok, event_data') \<Rightarrow>
                  (if ok then check_groups rest event_data' project_state
                   else Inr (False, event_data', project_state)))
         | _ \<Rightarrow> Inr (False, event_data, project_state))
      else if condition_type = ''project_state'' then
        (case condition_value of
           JDict pairs \<Rightarrow>
             (case check_pairs pairs project_state of
                Inl e \<Rightarrow> Inl e
              | Inr (ok, project_state') \<Rightarrow>
                  (if ok then check_groups rest event_data project_state'
                   else Inr (False, event_data, project_state')))
         | _ \<Rightarrow> Inr (False, event_data, project_state))
      else Inr (False, event_data, project_state))"

fun json_truthy :: "json \<Rightarrow> bool" where
  "json_truthy JNull = False"
| "json_truthy (JBool b) = b"
| "json_truthy (JInt i) = (i \<noteq> 0)"
| "json_truthy (JStr s) = (s \<noteq> [])"
| "json_truthy (JList xs) = (xs \<noteq> [])"
| "json_truthy (JDict d) = (d \<noteq> [])"

text \<open>
  \<^verbatim>\<open>WorkflowEngine._check_conditions(conditions, event_data, project_state)\<close>: whether
  the conditions hold, with the event payload and the project state as the lookups leave them.
  \<^verbatim>\<open>conditions.items()\<close> raises on a truthy value that is not a dict.
\<close>

definition check_conditions ::
  "json \<Rightarrow> pyval \<Rightarrow> pyval \<Rightarrow> error + (bool \<times> pyval \<times> pyval)" where
  "check_conditions conditions event_data project_state =
     (if \<not> json_truthy conditions then Inr (True, event_data, project_state)
      else (case conditions of
              JDict groups \<Rightarrow> check_groups groups event_data project_state
            | _ \<Rightarrow> Inl AttributeError))"

section \<open>Workflow engine: events\<close>

text \<open>\<^verbatim>\<open>v[k]\<close> on a value of the configuration.\<close>

fun json_getitem :: "json \<Rightarrow> string \<Rightarrow> error + json" where
  "json_getitem (JDict d) k = (case map_of d k of None \<Rightarrow> Inl KeyError | Some x \<Rightarrow> Inr x)"
| "json_getitem v k = Inl TypeError"

text \<open>
  \<^verbatim>\<open>for x in v\<close> on a value of the configuration: the elements of a list, the keys of a
  dict, the characters of a string; the other values are not iterable.
\<close>

fun json_iter :: "json \<Rightarrow> error + json list" where
  "json_iter (JList xs) = Inr xs"
| "json_iter (JDict d) = Inr (map (\<lambda>kv. JStr (fst kv)) d)"
| "json_iter (JStr s) = Inr (map (\<lambda>c. JStr [c]) s)"
| "json_iter v = Inl TypeError"

text \<open>
  \<^verbatim>\<open>executable_action = action.copy()\<close> with the event payload and the project state
  attached under \<^verbatim>\<open>_event_data\<close> and \<^verbatim>\<open>_project_state\<close>.
\<close>

definition executable_action :: "(string \<times> json) list \<Rightarrow> pyval \<Rightarrow> pyval \<Rightarrow> pyval" where
  "executable_action action event_data project_state =
     PDict (AList.update ''_project_state'' project_state
             (AList.update ''_event_data'' event_data
               (map (\<lambda>kv. (fst kv, of_json (snd kv))) action)))"

text \<open>
  The loop of \<^verbatim>\<open>process_event\<close> over the actions of the matched handler;
  \<open>actions_to_execute\<close> is the list collected so far. After a \<^verbatim>\<open>check_condition\<close> is
  evaluated, the message printed reads \<^verbatim>\<open>action['condition_type']\<close>.
\<close>

fun process_actions :: "pyval list \<Rightarrow> json list \<Rightarrow> pyval \<Rightarrow> pyval \<Rightarrow> error + pyval list" where
  "process_actions actions_to_execute [] event_data project_state = Inr actions_to_execute"
| "process_actions actions_to_execute (action # rest) event_data project_state =
     (case json_getitem action ''type'' of
        Inl e \<Rightarrow> Inl e
      | Inr action_type \<Rightarrow>
          if action_type = JStr ''check_condition'' then
            (case evaluate_condition action project_state of
               Inl e \<Rightarrow> Inl e
             | Inr condition_met \<Rightarrow>
                 (case json_getitem action ''condition_type'' of
                    Inl e \<Rightarrow> Inl e
                  | Inr printed \<Rightarrow>
                      if \<not> condition_met then Inr actions_to_execute
                      else process_actions actions_to_execute rest event_data project_state))
          else
            (case action of
               JDict items \<Rightarrow>
                 process_actions
                   (actions_to_execute @ [executable_action items event_data project_state])
                   rest event_data project_state
             | _ \<Rightarrow> Inl AttributeError))"

text \<open>\<^verbatim>\<open>d.get(k, default)\<close> once \<^verbatim>\<open>get\<close> has been found.\<close>

definition or_default :: "'a \<Rightarrow> 'a option \<Rightarrow> 'a" where
  "or_default d found = (case found of None \<Rightarrow> d | Some x \<Rightarrow> x)"

text \<open>
  What \<^verbatim>\<open>process_event\<close> does with the handler whose conditions hold: it walks
  \<^verbatim>\<open>handler.get('actions', [])\<close> and stops looking at handlers.
\<close>

definition fire_handler :: "json \<Rightarrow> pyval \<Rightarrow> pyval \<Rightarrow> error + (pyval list \<times> pyval \<times> pyval)" where
  "fire_handler handler event_data project_state =
     (case json_get handler ''actions'' of
        Inl e \<Rightarrow> Inl e
      | Inr found \<Rightarrow>
          (case json_iter (or_default (JList []) found) of
             Inl e \<Rightarrow> Inl e
           | Inr config_actions \<Rightarrow>
               (case process_actions [] config_actions event_data project_state of
                  Inl e \<Rightarrow> Inl e
                | Inr actions_to_execute \<Rightarrow>
                    Inr (actions_to_execute, event_data, project_state))))"

text \<open>The loop of \<^verbatim>\<open>process_event\<close> over the handlers of the event type.\<close>

fun handlers_loop ::
  "json list \<Rightarrow> pyval \<Rightarrow> pyval \<Rightarrow> error + (pyval list \<times> pyval \<times> pyval)" where
  "handlers_loop [] event_data project_state = Inr ([], event_data, project_state)"
| "handlers_loop (handler # rest) event_data project_state =
     (case json_get handler ''conditions'' of
        Inl e \<Rightarrow> Inl e
      | Inr found \<Rightarrow>
          (case check_conditions (or_default (JDict []) found) event_data project_state of
             Inl e \<Rightarrow> Inl e
           | Inr (conditions_met, event_data', project_state') \<Rightarrow>
               if conditions_met then fire_handler handler event_data' project_state'
               else handlers_loop rest event_data' project_state'))"

text \<open>
  \<^verbatim>\<open>WorkflowEngine.process_event(event_type, event_data, project_state)\<close> on the loaded
  configuration: the actions to execute, and the event payload and the project state as the
  condition lookups leave them.
\<close>

definition process_event ::
  "json \<Rightarrow> string \<Rightarrow> pyval \<Rightarrow> pyval \<Rightarrow> error + (pyval list \<times> pyval \<times> pyval)" where
  "process_event workflow_config event_type event_data project_state =
     (case json_get workflow_config ''events'' of
        Inl e \<Rightarrow> Inl e
      | Inr events \<Rightarrow>
          (case json_get (or_default (JDict []) events) event_type of
             Inl e \<Rightarrow> Inl e
           | Inr found \<Rightarrow>
               (case json_iter (or_default (JList []) found) of
                  Inl e \<Rightarrow> Inl e
                | Inr event_handlers \<Rightarrow>
                    handlers_loop event_handlers event_data project_state)))"

section \<open>Reading the conditions as a conjunction\<close>

text \<open>
  The value under a path of keys, through dicts only: \<open>None\<close> when a key is absent or a
  value on the way is not a dict.
\<close>

fun get_path :: "string list \<Rightarrow> pyval \<Rightarrow> pyval option" where
  "get_path [] v = Some v"
| "get_path (k # ks) (PDict d) = (case map_of d k of None \<Rightarrow> None | Some x \<Rightarrow> get_path ks x)"
| "get_path (k # ks) (PDefaultDict d) =
     (case map_of d k of None \<Rightarrow> None | Some x \<Rightarrow> get_path ks x)"
| "get_path (k # ks) v = None"

text \<open>Whether the walk along a path reads a key that a defaultdict on the way lacks.\<close>

fun reads_default :: "string list \<Rightarrow> pyval \<Rightarrow> bool" where
  "reads_default [] v = False"
| "reads_default (k # ks) (PDict d) =
     (case map_of d k of None \<Rightarrow> False | Some x \<Rightarrow> reads_default ks x)"
| "reads_default (k # ks) (PDefaultDict d) =
     (case map_of d k of None \<Rightarrow> True | Some x \<Rightarrow> reads_default ks x)"
| "reads_default (k # ks) v = False"

text \<open>
  The specification's reading of a handler's conditions: a pair holds when its dotted path
  resolves and the value found equals the expected one; a group holds when it is named
  \<^verbatim>\<open>event_data\<close> or \<^verbatim>\<open>project_state\<close>, is a map, and all its pairs hold in the event
  payload or the project state; the conditions hold when all groups do.
\<close>

definition pair_holds :: "pyval \<Rightarrow> string \<times> json \<Rightarrow> bool" where
  "pair_holds data kv =
     (case get_path (py_split (CHR ''.'') (fst kv)) data of
        None \<Rightarrow> False
      | Some x \<Rightarrow> py_eq x (of_json (snd kv)))"

definition group_holds :: "pyval \<Rightarrow> pyval \<Rightarrow> string \<times> json \<Rightarrow> bool" where
  "group_holds event_data project_state g =
     (case snd g of
        JDict pairs \<Rightarrow>
          (if fst g = ''event_data'' then list_all (pair_holds event_data) pairs
           else if fst g = ''project_state'' then list_all (pair_holds project_state) pairs
           else False)
      | _ \<Rightarrow> False)"

text \<open>No path of the group reads an absent key of a defaultdict.\<close>

definition group_plain :: "pyval \<Rightarrow> pyval \<Rightarrow> string \<times> json \<Rightarrow> bool" where
  "group_plain event_data project_state g =
     (case snd g of
        JDict pairs \<Rightarrow>
          (if fst g = ''event_data'' then
             list_all (\<lambda>kv. \<not> reads_default (py_split (CHR ''.'') (fst kv)) event_data) pairs
           else if fst g = ''project_state'' then
             list_all (\<lambda>kv. \<not> reads_default (py_split (CHR ''.'') (fst kv)) project_state) pairs
           else True)
      | _ \<Rightarrow> True)"

text \<open>
  The handlers of a list are all evaluated and none matches: the event payload and the
  project state as their condition lookups leave them, or \<open>None\<close> when a handler matches or
  its evaluation raises.
\<close>

fun unmatched :: "json list \<Rightarrow> pyval \<Rightarrow> pyval \<Rightarrow> (pyval \<times> pyval) option" where
  "unmatched [] event_data project_state = Some (event_data, project_state)"
| "unmatched (handler # rest) event_data project_state =
     (case json_get handler ''conditions'' of
        Inl e \<Rightarrow> None
      | Inr found \<Rightarrow>
          (case check_conditions (or_default (JDict []) found) event_data project_state of
             Inl e \<Rightarrow> None
           | Inr (conditions_met, event_data', project_state') \<Rightarrow>
               if conditions_met then None else unmatched rest event_data' project_state'))"

section \<open>Orchestrator: the project state\<close>

text \<open>The \<^verbatim>\<open>project_state\<close> that \<^verbatim>\<open>GrandOrchestrator.__init__\<close> builds.\<close>

definition initial_project_state :: pyval where
  "initial_project_state = PDict
     [(''status'', PStr ''Idle''),
      (''current_phase'', PStr ''Initiation''),
      (''pending_human_approval_context'', PNone),
      (''app_idea'', PNone),
      (''concept_brief'', PNone),
      (''technical_blueprint'', PNone),
      (''tech_stack_proposal'', PNone),
      (''ui_ux_prototype_url'', PNone),
      (''design_guidelines'', PNone),
      (''code_modules_status'', PDict []),
      (''test_results'', PDict []),
      (''module_test_retries'', PDefaultDict []),
      (''deployment_retries'', PInt 0),
      (''final_app_url'', PNone),
      (''selected_deployment_target'', PNone),
      (''current_task_contexts'', PDict []),
      (''escalated_issues'', PDict [])]"

section \<open>Orchestrator: path-based state update\<close>

text \<open>The assignment \<^verbatim>\<open>d[k] = v\<close> on a dict: in place for a key it has, at the end otherwise.\<close>

fun py_setitem :: "pyval \<Rightarrow> string \<Rightarrow> pyval \<Rightarrow> pyval" where
  "py_setitem (PDict d) k v = PDict (AList.update k v d)"
| "py_setitem (PDefaultDict d) k v = PDefaultDict (AList.update k v d)"
| "py_setitem d k v = d"

text \<open>
  The body of \<^verbatim>\<open>_update_project_state\<close> from the loop over \<^verbatim>\<open>keys[:-1]\<close> on, with
  \<open>d\<close> the object reached so far; the result is \<open>d\<close> after the call. The loop returns
  without a write when \<open>d\<close> is not a dict or lacks the key; after the loop the value is
  stored under \<open>last_key\<close> when \<open>d\<close> is a dict. Both failures only log.
\<close>

fun update_at :: "string list \<Rightarrow> string \<Rightarrow> pyval \<Rightarrow> pyval \<Rightarrow> pyval" where
  "update_at [] last_key v d = (if is_dict d then py_setitem d last_key v else d)"
| "update_at (key # keys) last_key v (PDict items) =
     (case map_of items key of
        None \<Rightarrow> PDict items
      | Some child \<Rightarrow> py_setitem (PDict items) key (update_at keys last_key v child))"
| "update_at (key # keys) last_key v (PDefaultDict items) =
     (case map_of items key of
        None \<Rightarrow> PDefaultDict items
      | Some child \<Rightarrow> py_setitem (PDefaultDict items) key (update_at keys last_key v child))"
| "update_at (key # keys) last_key v d = d"

text \<open>
  \<^verbatim>\<open>GrandOrchestrator._update_project_state(path, value)\<close>, as a function of the project
  state.
\<close>

definition update_project_state :: "string \<Rightarrow> pyval \<Rightarrow> pyval \<Rightarrow> pyval" where
  "update_project_state path v project_state =
     (let keys = py_split (CHR ''.'') path
      in update_at (butlast keys) (last keys) v project_state)"

section \<open>Workflow engine: templates\<close>

text \<open>
  The class \<^verbatim>\<open>[\w\.]\<close> of the token pattern, on ASCII text: letters, digits, the underscore
  and the dot.
\<close>

definition is_word :: "char \<Rightarrow> bool" where
  "is_word c = (let n = (of_char c :: nat)
                in (48 \<le> n \<and> n \<le> 57) \<or> (65 \<le> n \<and> n \<le> 90) \<or> (97 \<le> n \<and> n \<le> 122) \<or> n = 95)"

definition path_char :: "char \<Rightarrow> bool" where
  "path_char c = (is_word c \<or> c = CHR ''.'')"

text \<open>The rest of \<open>s\<close> after the literal \<open>p\<close>, when \<open>s\<close> starts with it.\<close>

fun after_prefix :: "string \<Rightarrow> string \<Rightarrow> string option" where
  "after_prefix [] s = Some s"
| "after_prefix (p # ps) [] = None"
| "after_prefix (p # ps) (c # cs) = (if p = c then after_prefix ps cs else None)"

text \<open>
  The pattern after the alternation: \<^verbatim>\<open>\.([\w\.]+)\}\}\<close>. The class excludes the closing
  brace, so only the longest run of class characters can be followed by \<^verbatim>\<open>}}\<close>.
\<close>

definition match_rest :: "string \<Rightarrow> (string \<times> string) option" where
  "match_rest s =
     (case after_prefix ''.'' s of
        None \<Rightarrow> None
      | Some r \<Rightarrow>
          (let key_path = takeWhile path_char r
           in if key_path = [] then None
              else (case after_prefix ''}}'' (dropWhile path_char r) of
                      None \<Rightarrow> None
                    | Some rest \<Rightarrow> Some (key_path, rest))))"

text \<open>The alternation \<^verbatim>\<open>(a|b)\<close>: the alternatives in order, the next one on failure.\<close>

fun match_alts :: "string list \<Rightarrow> string \<Rightarrow> (string \<times> string \<times> string) option" where
  "match_alts [] s = None"
| "match_alts (a # alts) s =
     (case after_prefix a s of
        None \<Rightarrow> match_alts alts s
      | Some r \<Rightarrow>
          (case match_rest r of
             None \<Rightarrow> match_alts alts s
           | Some (key_path, rest) \<Rightarrow> Some (a, key_path, rest)))"

text \<open>
  A match of \<^verbatim>\<open>\{\{(a|b)\.([\w\.]+)\}\}\<close> at the start of \<open>s\<close>: the two groups and the text
  after the match.
\<close>

definition match_token :: "string list \<Rightarrow> string \<Rightarrow> (string \<times> string \<times> string) option" where
  "match_token alts s =
     (case after_prefix ''{{'' s of None \<Rightarrow> None | Some r \<Rightarrow> match_alts alts r)"

lemma after_prefix_length: "after_prefix p s = Some r \<Longrightarrow> length r \<le> length s"
  by (induction p s rule: after_prefix.induct) (auto split: if_splits)

lemma match_alts_length: "match_alts alts s = Some (a, k, r) \<Longrightarrow> length r \<le> length s"
proof (induction alts)
  case Nil
  then show ?case by simp
next
  case (Cons b alts)
  show ?case
  proof (cases "after_prefix b s")
    case None
    then show ?thesis using Cons by simp
  next
    case (Some t)
    show ?thesis
    proof (cases "match_rest t")
      case None
      then show ?thesis using Cons Some by simp
    next
      case (Some kr)
      obtain u where u: "after_prefix ''.'' t = Some u"
        using Some by (auto simp: match_rest_def split: option.splits)
      have "after_prefix ''}}'' (dropWhile path_char u) = Some r"
        using Some Cons.prems \<open>after_prefix b s = Some t\<close> u
        by (auto simp: match_rest_def Let_def split: option.splits if_splits)
      then have "length r \<le> length (dropWhile path_char u)" by (rule after_prefix_length)
      also have "\<dots> \<le> length u" by (rule length_dropWhile_le)
      also have "\<dots> \<le> length t" using u by (rule after_prefix_length)
      also have "\<dots> \<le> length s" using \<open>after_prefix b s = Some t\<close> by (rule after_prefix_length)
      finally show ?thesis .
    qed
  qed
qed

lemma match_token_length: "match_token alts s = Some (a, k, r) \<Longrightarrow> length r < length s"
proof -
  assume m: "match_token alts s = Some (a, k, r)"
  then obtain t where t: "after_prefix ''{{'' s = Some t" "match_alts alts t = Some (a, k, r)"
    by (auto simp: match_token_def split: option.splits)
  from t(1) have "length t < length s"
    by (cases s; cases "tl s") (auto split: if_splits)
  with match_alts_length [OF t(2)] show ?thesis by simp
qed

text \<open>
  \<^verbatim>\<open>re.findall\<close> with the token pattern: the matches from left to right, each search
  starting where the last match ended.
\<close>

function find_tokens :: "string list \<Rightarrow> string \<Rightarrow> (string \<times> string) list" where
  "find_tokens alts [] = []"
| "find_tokens alts (c # cs) =
     (case match_token alts (c # cs) of
        None \<Rightarrow> find_tokens alts cs
      | Some (source, key_path, rest) \<Rightarrow> (source, key_path) # find_tokens alts rest)"
  by pat_completeness auto
termination
  by (relation "measure (\<lambda>(alts, s). length s)") (auto dest: match_token_length)

text \<open>
  \<^verbatim>\<open>s.replace(old, new)\<close>: the occurrences of \<open>old\<close> from left to right, without overlap.
\<close>

function py_replace :: "string \<Rightarrow> string \<Rightarrow> string \<Rightarrow> string" where
  "py_replace old new [] = (if old = [] then new else [])"
| "py_replace old new (c # cs) =
     (if old = [] then new @ c # py_replace old new cs
      else (case after_prefix old (c # cs) of
              None \<Rightarrow> c # py_replace old new cs
            | Some rest \<Rightarrow> new @ py_replace old new rest))"
  by pat_completeness auto
termination
proof (relation "measure (\<lambda>(old, new, s). length s)")
  fix old :: string and new :: string and c cs rest
  assume "old \<noteq> []" "after_prefix old (c # cs) = Some rest"
  then have "length rest < length (c # cs)"
    by (cases old) (auto split: if_splits dest: after_prefix_length)
  then show "((old, new, rest), (old, new, c # cs)) \<in> measure (\<lambda>(old, new, s). length s)"
    by simp
qed auto

text \<open>\<^verbatim>\<open>str(v)\<close> and \<^verbatim>\<open>repr(v)\<close> on ASCII text.\<close>

fun nat_digits :: "nat \<Rightarrow> string" where
  "nat_digits n =
     (if n < 10 then [''0123456789'' ! n]
      else nat_digits (n div 10) @ [''0123456789'' ! (n mod 10)])"

definition int_str :: "int \<Rightarrow> string" where
  "int_str i = (if i < 0 then CHR ''-'' # nat_digits (nat (- i)) else nat_digits (nat i))"

definition hex_digit :: "nat \<Rightarrow> char" where
  "hex_digit n = ''0123456789abcdef'' ! n"

definition repr_char :: "char \<Rightarrow> char \<Rightarrow> string" where
  "repr_char quote c =
     (let n = (of_char c :: nat)
      in if c = quote \<or> c = CHR 0x5C then [CHR 0x5C, c]
         else if n = 9 then [CHR 0x5C, CHR ''t'']
         else if n = 10 then [CHR 0x5C, CHR ''n'']
         else if n = 13 then [CHR 0x5C, CHR ''r'']
         else if n < 32 \<or> n = 127 then [CHR 0x5C, CHR ''x'', hex_digit (n div 16), hex_digit (n mod 16)]
         else [c])"

definition repr_str :: "string \<Rightarrow> string" where
  "repr_str s =
     (let quote = (if CHR 0x27 \<in> set s \<and> CHR 0x22 \<notin> set s then CHR 0x22 else CHR 0x27)
      in quote # concat (map (repr_char quote) s) @ [quote])"

fun join :: "string \<Rightarrow> string list \<Rightarrow> string" where
  "join sep [] = []"
| "join sep [x] = x"
| "join sep (x # y # ys) = x @ sep @ join sep (y # ys)"

fun py_repr :: "pyval \<Rightarrow> string" where
  "py_repr PNone = ''None''"
| "py_repr (PBool b) = (if b then ''True'' else ''False'')"
| "py_repr (PInt i) = int_str i"
| "py_repr (PStr s) = repr_str s"
| "py_repr (PList xs) = ''['' @ join '', '' (map py_repr xs) @ '']''"
| "py_repr (PDict d) =
     ''{'' @ join '', '' (map (\<lambda>kv. repr_str (fst kv) @ '': '' @ py_repr (snd kv)) d) @ ''}''"
| "py_repr (PDefaultDict d) =
     ''defaultdict(<class '' @ [CHR 0x27] @ ''int'' @ [CHR 0x27] @ ''>, {'' @
       join '', '' (map (\<lambda>kv. repr_str (fst kv) @ '': '' @ py_repr (snd kv)) d) @ ''})''"

definition py_str :: "pyval \<Rightarrow> string" where
  "py_str v = (case v of PStr s \<Rightarrow> s | _ \<Rightarrow> py_repr v)"

text \<open>
  The values a template lookup passes through: data, or an object that is not data (a bound
  method, a class) of which only the text \<^verbatim>\<open>str()\<close> prints is kept.
\<close>

datatype tval = Data pyval | Opaque string

text \<open>
  Python's attribute table is a parameter of the model: \<open>getattr_or_none v part\<close> stands for
  \<^verbatim>\<open>getattr(value, part, None)\<close> on a value that is not a dict, \<open>Data PNone\<close> when the
  value has no such attribute.

  One step of the lookup loop:
  \<^verbatim>\<open>value.get(part) if isinstance(value, dict) else getattr(value, part, None)\<close>.
\<close>

definition lookup_step :: "(tval \<Rightarrow> string \<Rightarrow> error + tval) \<Rightarrow> tval \<Rightarrow> string \<Rightarrow> error + tval" where
  "lookup_step getattr_or_none v part =
     (case v of
        Data (PDict d) \<Rightarrow> Inr (Data (or_default PNone (map_of d part)))
      | Data (PDefaultDict d) \<Rightarrow> Inr (Data (or_default PNone (map_of d part)))
      | _ \<Rightarrow> getattr_or_none v part)"

text \<open>The loop over \<open>parts\<close>, left at the first \<open>None\<close>.\<close>

fun lookup_parts ::
  "(tval \<Rightarrow> string \<Rightarrow> error + tval) \<Rightarrow> string list \<Rightarrow> tval \<Rightarrow> error + tval" where
  "lookup_parts getattr_or_none [] v = Inr v"
| "lookup_parts getattr_or_none (part # parts) v =
     (case lookup_step getattr_or_none v part of
        Inl e \<Rightarrow> Inl e
      | Inr v' \<Rightarrow> if v' = Data PNone then Inr v' else lookup_parts getattr_or_none parts v')"

text \<open>\<^verbatim>\<open>str(value) if value is not None else 'N/A'\<close>.\<close>

definition render :: "tval \<Rightarrow> string" where
  "render v = (case v of Data PNone \<Rightarrow> ''N/A'' | Data d \<Rightarrow> py_str d | Opaque s \<Rightarrow> s)"

text \<open>
  The text that replaces a token: the \<^verbatim>\<open>try\<close> block gives the rendered value, the
  \<^verbatim>\<open>except Exception\<close> block the marker.
\<close>

definition replacement :: "(tval \<Rightarrow> string \<Rightarrow> error + tval) \<Rightarrow> pyval \<Rightarrow> string \<Rightarrow> string" where
  "replacement getattr_or_none source_data key_path =
     (case lookup_parts getattr_or_none (py_split (CHR ''.'') key_path) (Data source_data) of
        Inl e \<Rightarrow> ''ERROR_SUBSTITUTING''
      | Inr v \<Rightarrow> render v)"

text \<open>The token \<^verbatim>\<open>{{source.key_path}}\<close> that the f-string builds.\<close>

definition token :: "string \<Rightarrow> string \<Rightarrow> string" where
  "token source key_path = ''{{'' @ source @ ''.'' @ key_path @ ''}}''"

text \<open>The loop over the matches: each replaces its token throughout the output so far.\<close>

fun substitute_matches ::
  "(tval \<Rightarrow> string \<Rightarrow> error + tval) \<Rightarrow> pyval \<Rightarrow> (string \<times> string) list \<Rightarrow> string \<Rightarrow> string" where
  "substitute_matches getattr_or_none source_data [] output = output"
| "substitute_matches getattr_or_none source_data ((source, key_path) # rest) output =
     substitute_matches getattr_or_none source_data rest
       (py_replace (token source key_path)
          (replacement getattr_or_none source_data key_path) output)"

text \<open>The string branch of \<^verbatim>\<open>_substitute_template\<close>: the event pass, then the state pass.\<close>

definition substitute_string ::
  "(tval \<Rightarrow> string \<Rightarrow> error + tval) \<Rightarrow> string \<Rightarrow> pyval \<Rightarrow> pyval \<Rightarrow> string" where
  "substitute_string getattr_or_none template event_data project_state =
     (let output = template;
          output = substitute_matches getattr_or_none event_data
                     (find_tokens [''event'', ''result''] output) output;
          output = substitute_matches getattr_or_none project_state
                     (find_tokens [''state'', ''project_state''] output) output
      in output)"

text \<open>
  \<^verbatim>\<open>WorkflowEngine._substitute_template(template, event_data, project_state)\<close>. A dict
  comprehension builds a plain dict, also from a defaultdict.
\<close>

fun substitute_template ::
  "(tval \<Rightarrow> string \<Rightarrow> error + tval) \<Rightarrow> pyval \<Rightarrow> pyval \<Rightarrow> pyval \<Rightarrow> pyval" where
  "substitute_template g (PStr s) event_data project_state =
     PStr (substitute_string g s event_data project_state)"
| "substitute_template g (PDict d) event_data project_state =
     PDict (map (\<lambda>kv. (fst kv, substitute_template g (snd kv) event_data project_state)) d)"
| "substitute_template g (PDefaultDict d) event_data project_state =
     PDict (map (\<lambda>kv. (fst kv, substitute_template g (snd kv) event_data project_state)) d)"
| "substitute_template g (PList xs) event_data project_state =
     PList (map (\<lambda>item. substitute_template g item event_data project_state) xs)"
| "substitute_template g template event_data project_state = template"

text \<open>The attribute lookup at a name that the value has no attribute of.\<close>

definition no_attribute :: "tval \<Rightarrow> string \<Rightarrow> error + tval" where
  "no_attribute v part = Inr (Data PNone)"

text \<open>
  A template string cut into pieces: literal text and tokens \<^verbatim>\<open>{{namespace.key_path}}\<close>.
\<close>

datatype piece = Lit string | Ref string string

fun piece_text :: "piece \<Rightarrow> string" where
  "piece_text (Lit s) = s"
| "piece_text (Ref ns key_path) = token ns key_path"

definition pieces_text :: "piece list \<Rightarrow> string" where
  "pieces_text ps = concat (map piece_text ps)"




section \<open>Agents\<close>

text \<open>Sequencing of calls that may raise: the first error ends the computation.\<close>

definition on_result :: "error + 'a \<Rightarrow> ('a \<Rightarrow> error + 'b) \<Rightarrow> error + 'b" where
  "on_result m f = (case m of Inl e \<Rightarrow> Inl e | Inr x \<Rightarrow> f x)"

text \<open>\<^verbatim>\<open>v[k]\<close> on a message or on the project state, which are plain dicts.\<close>

definition py_item :: "pyval \<Rightarrow> string \<Rightarrow> error + pyval" where
  "py_item v k = fst (py_getitem v k)"

text \<open>The slice \<^verbatim>\<open>v[:8]\<close> of the log lines: strings and lists have it.\<close>

fun sliceable :: "pyval \<Rightarrow> bool" where
  "sliceable (PStr s) = True"
| "sliceable (PList xs) = True"
| "sliceable v = False"

text \<open>\<^verbatim>\<open>d[k] = v\<close> where \<open>d\<close> may be any value: only dicts take the assignment.\<close>

definition py_setitem_checked :: "pyval \<Rightarrow> string \<Rightarrow> pyval \<Rightarrow> error + pyval" where
  "py_setitem_checked d k v = (if is_dict d then Inr (py_setitem d k v) else Inl TypeError)"

text \<open>\<^verbatim>\<open>v.copy()\<close>.\<close>

fun py_copy :: "pyval \<Rightarrow> error + pyval" where
  "py_copy (PDict d) = Inr (PDict d)"
| "py_copy (PDefaultDict d) = Inr (PDefaultDict d)"
| "py_copy (PList xs) = Inr (PList xs)"
| "py_copy v = Inl AttributeError"

text \<open>
  What the program takes from outside: the loaded workflow configuration, the values that
  \<^verbatim>\<open>uuid.uuid4()\<close> and \<^verbatim>\<open>datetime.now().isoformat()\<close> return at the \<open>n\<close>-th such
  call, the \<^verbatim>\<open>process_task\<close> of each agent class (by agent name; it calls a language model,
  so it may answer differently at different times), the text of an exception, and Python's
  attribute table.
\<close>

record env =
  workflow_config :: json
  uuid4 :: "nat \<Rightarrow> string"
  now :: "nat \<Rightarrow> string"
  process_task :: "string \<Rightarrow> nat \<Rightarrow> pyval \<Rightarrow> error + pyval"
  error_text :: "error \<Rightarrow> string"
  getattr_or_none :: "tval \<Rightarrow> string \<Rightarrow> error + tval"

text \<open>
  An \<^verbatim>\<open>AIAgent\<close>: its name, its inbox, and whether it has a reference to the Orchestrator.
\<close>

record agent =
  name :: string
  inbox :: "pyval list"
  attached :: bool

text \<open>
  \<^verbatim>\<open>AIAgent.send_message\<close>, on the Orchestrator's internal message queue and the count of
  calls to \<^verbatim>\<open>uuid4\<close> and \<^verbatim>\<open>now\<close>: \<^verbatim>\<open>route_internal_message\<close> appends the message;
  an agent without Orchestrator only prints a warning.
\<close>

definition send_message ::
  "env \<Rightarrow> agent \<Rightarrow> string \<Rightarrow> string \<Rightarrow> pyval \<Rightarrow> pyval \<Rightarrow> pyval list \<Rightarrow> nat \<Rightarrow> pyval list \<times> nat" where
  "send_message e a recipient_name message_type content context_id queue t =
     (let message = PDict
            [(''message_id'', PStr (uuid4 e t)),
             (''timestamp'', PStr (now e (t + 1))),
             (''sender'', PStr (name a)),
             (''recipient'', PStr recipient_name),
             (''type'', PStr message_type),
             (''content'', content),
             (''context_id'', context_id)]
      in (if attached a then queue @ [message] else queue, t + 2))"

text \<open>
  \<^verbatim>\<open>AIAgent.process_pending_tasks\<close>: the agent, the internal message queue and the call
  count afterwards, or the exception that leaves the method. The log line of a task slices
  the context id before the \<^verbatim>\<open>try\<close> block; the \<^verbatim>\<open>try\<close> block covers the handler, the
  store of \<^verbatim>\<open>task_name\<close> into its result and the send.
\<close>

definition process_pending_tasks ::
  "env \<Rightarrow> agent \<Rightarrow> pyval list \<Rightarrow> nat \<Rightarrow> error + (agent \<times> pyval list \<times> nat)" where
  "process_pending_tasks e a queue t =
     (case inbox a of
        [] \<Rightarrow> Inr (a, queue, t)
      | message # rest \<Rightarrow>
          (let a' = a\<lparr>inbox := rest\<rparr> in
           on_result (py_item message ''type'') (\<lambda>message_type.
             if py_eq message_type (PStr ''task'') then
               on_result (py_item message ''content'') (\<lambda>task_content.
               on_result (py_get task_content ''task_name'') (\<lambda>found_name.
               on_result (py_get message ''context_id'') (\<lambda>found_context.
                 (let task_name = or_default (PStr ''Unnamed Task'') found_name;
                      context_id = or_default (PStr ''NoContext'') found_context
                  in if \<not> sliceable context_id then Inl TypeError
                     else
                       (case on_result (process_task e (name a) t task_content)
                               (\<lambda>result_content.
                                  py_setitem_checked result_content ''task_name'' task_name) of
                          Inr result_content \<Rightarrow>
                            (case send_message e a' ''Orchestrator'' ''result''
                                    result_content context_id queue t of
                               (queue', t') \<Rightarrow> Inr (a', queue', t'))
                        | Inl raised \<Rightarrow>
                            (let text =
                                   (if raised = NotImplementedError then
                                      ''Task failed: '' @ name a @
                                        '' has no process_task implementation.''
                                    else ''Task failed due to exception: '' @ error_text e raised)
                             in case send_message e a' ''Orchestrator'' ''status_update''
                                       (PDict [(''task_name'', task_name),
                                               (''status'', PStr ''failed''),
                                               (''message'', PStr text)])
                                       context_id queue t of
                                  (queue', t') \<Rightarrow> Inr (a', queue', t')))))))
             else if py_eq message_type (PStr ''feedback'') then
               on_result (py_item message ''content'') (\<lambda>content.
               on_result (py_get content ''description'') (\<lambda>description.
               on_result (py_get message ''context_id'') (\<lambda>found_context.
                 if \<not> sliceable (or_default (PStr ''NoContext'') found_context)
                 then Inl TypeError else Inr (a', queue, t))))
             else Inr (a', queue, t))))"

section \<open>Orchestrator\<close>

text \<open>
  The \<^verbatim>\<open>GrandOrchestrator\<close>: the project state, the agents in the order of their
  registration, the three queues, and the count of calls to \<^verbatim>\<open>uuid4\<close> and \<^verbatim>\<open>now\<close>.
  The human outbox holds pairs of a response and a context id.
\<close>

record orchestrator =
  project_state :: pyval
  agents :: "(string \<times> agent) list"
  internal_message_queue :: "pyval list"
  human_inbox :: "pyval list"
  human_outbox :: "(pyval \<times> pyval) list"
  ticks :: nat

text \<open>
  The Orchestrator after \<^verbatim>\<open>__init__\<close>; each of the six agents has drawn one
  \<^verbatim>\<open>uuid4\<close> for its \<^verbatim>\<open>agent_id\<close>.
\<close>

definition new_agent :: "string \<Rightarrow> string \<times> agent" where
  "new_agent n = (n, \<lparr>name = n, inbox = [], attached = True\<rparr>)"

definition initial_orchestrator :: orchestrator where
  "initial_orchestrator =
     \<lparr>project_state = initial_project_state,
      agents = map new_agent [''Dream Weaver'', ''Master Builder'', ''Aesthetic Artist'',
                 ''Code Sage'', ''Quality Guardian'', ''Deployment Master''],
      internal_message_queue = [],
      human_inbox = [],
      human_outbox = [],
      ticks = 6\<rparr>"

text \<open>\<^verbatim>\<open>AIAgent.receive_message\<close>.\<close>

definition receive_message :: "agent \<Rightarrow> pyval \<Rightarrow> agent" where
  "receive_message a message = a\<lparr>inbox := inbox a @ [message]\<rparr>"

text \<open>
  \<^verbatim>\<open>x in self.agents\<close>: the key when \<open>x\<close> is the name of an agent; a list or a dict is
  unhashable.
\<close>

fun hashable :: "pyval \<Rightarrow> bool" where
  "hashable (PList xs) = False"
| "hashable (PDict d) = False"
| "hashable (PDefaultDict d) = False"
| "hashable v = True"

definition in_agents :: "(string \<times> agent) list \<Rightarrow> pyval \<Rightarrow> error + string option" where
  "in_agents ags x =
     (if \<not> hashable x then Inl TypeError
      else Inr (case x of
                  PStr s \<Rightarrow> (if map_of ags s = None then None else Some s)
                | _ \<Rightarrow> None))"

text \<open>
  \<^verbatim>\<open>GrandOrchestrator.send_to_human\<close>. The log line slices a truthy context id.
\<close>

definition send_to_human ::
  "env \<Rightarrow> pyval \<Rightarrow> pyval \<Rightarrow> pyval \<Rightarrow> pyval \<Rightarrow> orchestrator \<Rightarrow> error + orchestrator" where
  "send_to_human e message_type content options context_id st =
     (let human_message = PDict
            [(''timestamp'', PStr (now e (ticks st))),
             (''type'', message_type),
             (''content'', content),
             (''options'', if py_truthy options then options else PList []),
             (''context_id'', context_id)];
          st = st\<lparr>human_inbox := human_inbox st @ [human_message], ticks := ticks st + 1\<rparr>
      in on_result
           (if py_in message_type [PStr ''QUESTION'', PStr ''CRITICAL_ISSUE'', PStr ''INSTRUCTION'']
            then on_result
                   (py_setitem_checked (project_state st) ''pending_human_approval_context''
                      context_id)
                   (\<lambda>ps. Inr (st\<lparr>project_state := ps\<rparr>))
            else Inr st)
           (\<lambda>st. if py_truthy context_id \<and> \<not> sliceable context_id then Inl TypeError
                 else Inr st))"

text \<open>
  \<^verbatim>\<open>GrandOrchestrator._delegate_task\<close>. The context id is a key of
  \<^verbatim>\<open>current_task_contexts\<close> and is sliced in the last log line; the dicts of the model
  have string keys, and with a truthy context id that is not a string the model raises
  \<^verbatim>\<open>TypeError\<close> at the store (Python raises there for an unhashable id, and at the log
  line at the latest for the others).
\<close>

definition delegate_task ::
  "env \<Rightarrow> pyval \<Rightarrow> pyval \<Rightarrow> pyval \<Rightarrow> pyval \<Rightarrow> orchestrator \<Rightarrow> error + orchestrator" where
  "delegate_task e agent_name task_name content context_id st =
     on_result (in_agents (agents st) agent_name) (\<lambda>found.
       case found of
         None \<Rightarrow>
           send_to_human e (PStr ''ERROR'')
             (PStr (''Orchestrator failed to delegate task '' @ [CHR 0x27] @ py_str task_name @
                    [CHR 0x27] @ '': Agent '' @ [CHR 0x27] @ py_str agent_name @ [CHR 0x27] @
                    '' not found.''))
             PNone context_id st
       | Some agent_key \<Rightarrow>
           (let minted = \<not> py_truthy context_id;
                context_id = (if minted then PStr (uuid4 e (ticks st)) else context_id);
                st = (if minted then st\<lparr>ticks := ticks st + 1\<rparr> else st)
            in on_result (py_item (project_state st) ''current_task_contexts'') (\<lambda>contexts.
                 case context_id of
                   PStr c \<Rightarrow>
                     on_result
                       (py_setitem_checked contexts c
                          (PDict [(''task_name'', task_name), (''agent'', agent_name),
                                  (''original_content'', content)]))
                       (\<lambda>contexts.
                     on_result (py_copy content) (\<lambda>task_payload.
                     on_result (py_setitem_checked task_payload ''task_name'' task_name)
                       (\<lambda>task_payload.
                          Inr (st\<lparr>project_state :=
                                     py_setitem (project_state st) ''current_task_contexts''
                                       contexts,
                                   agents :=
                                     map (\<lambda>(n, a).
                                            if n = agent_key then
                                              (n, receive_message a
                                                    (PDict [(''sender'', PStr ''Orchestrator''),
                                                            (''type'', PStr ''task''),
                                                            (''content'', task_payload),
                                                            (''context_id'', context_id)]))
                                            else (n, a))
                                       (agents st)\<rparr>))))
                 | _ \<Rightarrow> Inl TypeError)))"

text \<open>
  The retry count that \<^verbatim>\<open>_execute_actions\<close> reads before a delegation to the Quality
  Guardian or the Deployment Master, with the project state after the read:
  \<^verbatim>\<open>project_state['module_test_retries'][delegated_context_id]\<close> for the former,
  \<^verbatim>\<open>project_state['deployment_retries']\<close> for the latter. A context id that is not a
  string raises in the model.
\<close>

definition current_retries :: "pyval \<Rightarrow> pyval \<Rightarrow> pyval \<Rightarrow> error + (pyval \<times> pyval)" where
  "current_retries agent_name delegated_context_id ps =
     (if py_eq agent_name (PStr ''Quality Guardian'') then
        on_result (py_item ps ''module_test_retries'') (\<lambda>retries.
          case delegated_context_id of
            PStr c \<Rightarrow>
              (case py_getitem retries c of
                 (Inl raised, retries') \<Rightarrow> Inl raised
               | (Inr n, retries') \<Rightarrow> Inr (n, py_setitem ps ''module_test_retries'' retries'))
          | _ \<Rightarrow> Inl TypeError)
      else on_result (py_item ps ''deployment_retries'') (\<lambda>n. Inr (n, ps)))"

text \<open>
  The context id that the \<^verbatim>\<open>delegate_task\<close> branch of \<^verbatim>\<open>_execute_actions\<close> settles
  on before it mints one: the resolved \<^verbatim>\<open>context_id\<close> template of the action, overridden
  by the context id of the event when the action sets \<^verbatim>\<open>use_event_context_id\<close> and the
  event carries one.
\<close>

definition choose_context_id :: "env \<Rightarrow> pyval \<Rightarrow> pyval \<Rightarrow> orchestrator \<Rightarrow> error + pyval" where
  "choose_context_id e action event_data st =
     on_result (py_get action ''context_id'') (\<lambda>found_context.
       (let context_id_template = or_default PNone found_context;
            delegated_context_id =
              (if py_truthy context_id_template
               then substitute_template (getattr_or_none e) context_id_template
                      event_data (project_state st)
               else PNone)
        in on_result (py_get action ''use_event_context_id'') (\<lambda>found_use.
             if py_truthy (or_default (PBool False) found_use) then
               on_result (py_get event_data ''context_id'') (\<lambda>found_event_context.
                 if py_truthy (or_default PNone found_event_context)
                 then py_item event_data ''context_id''
                 else Inr delegated_context_id)
             else Inr delegated_context_id)))"

text \<open>
  The rest of the branch: a context id is minted when none was settled on, the retry count
  is stored into the content under \<^verbatim>\<open>retry_attempt\<close> for the two retryable agents, and
  the task is delegated.
\<close>

definition delegate_with_retries ::
  "env \<Rightarrow> pyval \<Rightarrow> pyval \<Rightarrow> pyval \<Rightarrow> pyval \<Rightarrow> orchestrator \<Rightarrow> error + orchestrator" where
  "delegate_with_retries e agent_name task_name content delegated_context_id st =
     (let minted = \<not> py_truthy delegated_context_id;
          delegated_context_id =
            (if minted then PStr (uuid4 e (ticks st)) else delegated_context_id);
          st = (if minted then st\<lparr>ticks := ticks st + 1\<rparr> else st)
      in on_result
           (if py_in agent_name [PStr ''Quality Guardian'', PStr ''Deployment Master'']
            then on_result
                   (current_retries agent_name delegated_context_id (project_state st))
                   (\<lambda>(retries, ps).
                      on_result (py_setitem_checked content ''retry_attempt'' retries)
                        (\<lambda>content. Inr (content, st\<lparr>project_state := ps\<rparr>)))
            else Inr (content, st))
           (\<lambda>(content, st).
              delegate_task e agent_name task_name content delegated_context_id st))"

text \<open>The branch of \<^verbatim>\<open>_execute_actions\<close> for an action of type \<^verbatim>\<open>delegate_task\<close>.\<close>

definition execute_delegate_task ::
  "env \<Rightarrow> pyval \<Rightarrow> pyval \<Rightarrow> orchestrator \<Rightarrow> error + orchestrator" where
  "execute_delegate_task e action event_data st =
     on_result (py_get action ''agent'') (\<lambda>found_agent.
     on_result (py_get action ''task'') (\<lambda>found_task.
     on_result (py_get action ''content'') (\<lambda>found_content.
       (let agent_name = or_default PNone found_agent;
            task_name = or_default PNone found_task;
            content_template = or_default (PDict []) found_content
        in if py_truthy agent_name \<and> py_truthy task_name then
             (let content = substitute_template (getattr_or_none e) content_template
                              event_data (project_state st)
              in on_result (choose_context_id e action event_data st)
                   (\<lambda>delegated_context_id.
                      delegate_with_retries e agent_name task_name content
                        delegated_context_id st))
           else Inr st))))"












text \<open>
  An environment for running the model on examples: a rule table whose only handler
  delegates a test run to the Quality Guardian under the context id of the event, and agents
  whose \<^verbatim>\<open>process_task\<close> returns a result.
\<close>

definition example_env :: env where
  "example_env =
     \<lparr>workflow_config = JDict [(''events'', JDict [(''human_input'', JList
        [JDict [(''actions'', JList
           [JDict [(''type'', JStr ''delegate_task''),
                   (''agent'', JStr ''Quality Guardian''),
                   (''task'', JStr ''run_tests''),
                   (''use_event_context_id'', JBool True),
                   (''content'', JDict [(''module_name'', JStr ''{{event.response}}'')])]])]])])],
      uuid4 = (\<lambda>n. ''uuid-'' @ nat_digits n),
      now = (\<lambda>n. ''t'' @ nat_digits n),
      process_task = (\<lambda>n t p. Inr (PDict [(''status'', PStr ''completed'')])),
      error_text = (\<lambda>e. ''error''),
      getattr_or_none = no_attribute\<rparr>"

text \<open>The task message that \<^verbatim>\<open>_delegate_task\<close> hands to \<^verbatim>\<open>receive_message\<close>.\<close>

definition task_message :: "pyval \<Rightarrow> pyval \<Rightarrow> pyval" where
  "task_message task_payload context_id =
     PDict [(''sender'', PStr ''Orchestrator''), (''type'', PStr ''task''),
            (''content'', task_payload), (''context_id'', context_id)]"


section \<open>Properties\<close>

lemma py_eq_PStr [simp]: "py_eq v (PStr s) = (v = PStr s)"
  by (cases v) auto

lemma all_completed_iff: "all_completed vs = (\<forall>v \<in> set vs. v = PStr ''completed'')"
  by (induction vs) auto

text \<open>
  C8. The condition \<^verbatim>\<open>all_modules_completed\<close> is true exactly when the project state's
  \<^verbatim>\<open>code_modules_status\<close> map is non-empty and every value in it is the string
  \<^verbatim>\<open>"completed"\<close>; an absent or empty map gives false, and so does any other
  condition type.
\<close>

theorem evaluate_condition_all_modules_completed:
  "(map_of a ''condition_type'' = Some (JStr ''all_modules_completed'') \<longrightarrow>
      (map_of ps ''code_modules_status'' = None \<longrightarrow>
         evaluate_condition (JDict a) (PDict ps) = Inr False) \<and>
      (map_of ps ''code_modules_status'' = Some (PDict m) \<longrightarrow>
         evaluate_condition (JDict a) (PDict ps) =
           Inr (m \<noteq> [] \<and> (\<forall>status \<in> snd ` set m. status = PStr ''completed'')))) \<and>
   (map_of a ''condition_type'' \<noteq> Some (JStr ''all_modules_completed'') \<longrightarrow>
      evaluate_condition (JDict a) (PDict ps) = Inr False)"
  by (auto simp: evaluate_condition_def all_completed_iff)

theorem evaluate_condition_all_modules_completed_witness:
  "evaluate_condition (JDict [(''type'', JStr ''check_condition''),
       (''condition_type'', JStr ''all_modules_completed'')])
     (PDict [(''status'', PStr ''Idle'')]) = Inr False
   \<and> evaluate_condition (JDict [(''type'', JStr ''check_condition''),
       (''condition_type'', JStr ''all_modules_completed'')])
     (PDict [(''code_modules_status'',
        PDict [(''m1'', PStr ''completed''), (''m2'', PStr ''completed'')])]) = Inr True
   \<and> evaluate_condition (JDict [(''type'', JStr ''check_condition''),
       (''condition_type'', JStr ''all_modules_completed'')])
     (PDict [(''code_modules_status'',
        PDict [(''m1'', PStr ''completed''), (''m2'', PStr ''coding'')])]) = Inr False
   \<and> evaluate_condition (JDict [(''type'', JStr ''check_condition''),
       (''condition_type'', JStr ''all_modules_completed'')])
     (PDict [(''code_modules_status'', PDict [])]) = Inr False
   \<and> evaluate_condition (JDict [(''type'', JStr ''check_condition''),
       (''condition_type'', JStr ''has_escalated_issue'')])
     (PDict [(''code_modules_status'', PDict [(''m1'', PStr ''completed'')])]) = Inr False"
  using evaluate_condition_all_modules_completed
      [of "[(''type'', JStr ''check_condition''),
            (''condition_type'', JStr ''all_modules_completed'')]"
          "[(''status'', PStr ''Idle'')]"]
    evaluate_condition_all_modules_completed
      [of "[(''type'', JStr ''check_condition''),
            (''condition_type'', JStr ''all_modules_completed'')]"
          "[(''code_modules_status'',
             PDict [(''m1'', PStr ''completed''), (''m2'', PStr ''completed'')])]"
          "[(''m1'', PStr ''completed''), (''m2'', PStr ''completed'')]"]
    evaluate_condition_all_modules_completed
      [of "[(''type'', JStr ''check_condition''),
            (''condition_type'', JStr ''all_modules_completed'')]"
          "[(''code_modules_status'',
             PDict [(''m1'', PStr ''completed''), (''m2'', PStr ''coding'')])]"
          "[(''m1'', PStr ''completed''), (''m2'', PStr ''coding'')]"]
    evaluate_condition_all_modules_completed
      [of "[(''type'', JStr ''check_condition''),
            (''condition_type'', JStr ''all_modules_completed'')]"
          "[(''code_modules_status'', PDict [])]" "[]"]
    evaluate_condition_all_modules_completed
      [of "[(''type'', JStr ''check_condition''),
            (''condition_type'', JStr ''has_escalated_issue'')]"
          "[(''code_modules_status'', PDict [(''m1'', PStr ''completed'')])]"]
  by simp

subsection \<open>Conditions of handlers\<close>

lemma update_same: "map_of d k = Some x \<Longrightarrow> AList.update k x d = d"
  by (induction d) auto

lemma walk_items_snd: "\<not> reads_default ks v \<Longrightarrow> snd (walk_items ks v) = v"
proof (induction ks v rule: get_path.induct)
  case (2 k ks d)
  then show ?case by (auto split: option.splits prod.splits sum.splits simp: update_same)
next
  case (3 k ks d)
  then show ?case by (auto split: option.splits prod.splits sum.splits simp: update_same)
qed auto

lemma walk_items_error: "walk_items ks v = (Inl e, v') \<Longrightarrow> e = KeyError \<or> e = TypeError"
proof (induction ks arbitrary: v v')
  case Nil
  then show ?case by simp
next
  case (Cons k ks)
  show ?case
  proof (cases v)
    case (PDict d)
    then show ?thesis using Cons.prems Cons.IH
      by (auto split: option.splits prod.splits sum.splits)
  next
    case (PDefaultDict d)
    then show ?thesis using Cons.prems Cons.IH
      by (auto split: option.splits prod.splits sum.splits)
  qed (use Cons.prems in auto)
qed

lemma walk_items_fst:
  "\<not> reads_default ks v \<Longrightarrow>
     (case fst (walk_items ks v) of Inl e \<Rightarrow> get_path ks v = None | Inr x \<Rightarrow> get_path ks v = Some x)"
proof (induction ks v rule: get_path.induct)
  case (2 k ks d)
  then show ?case by (auto split: option.splits prod.splits sum.splits)
next
  case (3 k ks d)
  then show ?case by (auto split: option.splits prod.splits sum.splits)
qed auto

lemma check_pairs_plain:
  "list_all (\<lambda>kv. \<not> reads_default (py_split (CHR ''.'') (fst kv)) data) pairs \<Longrightarrow>
     check_pairs pairs data = Inr (list_all (pair_holds data) pairs, data)"
proof (induction pairs)
  case Nil
  then show ?case by simp
next
  case (Cons kv pairs)
  obtain key expected where kv: "kv = (key, expected)" by (cases kv)
  let ?w = "walk_items (py_split (CHR ''.'') key) data"
  from Cons.prems kv have plain: "\<not> reads_default (py_split (CHR ''.'') key) data" by simp
  have s: "snd ?w = data" using walk_items_snd [OF plain] .
  have f: "(case fst ?w of Inl e \<Rightarrow> get_path (py_split (CHR ''.'') key) data = None
            | Inr x \<Rightarrow> get_path (py_split (CHR ''.'') key) data = Some x)"
    using walk_items_fst [OF plain] .
  show ?case
  proof (cases "fst ?w")
    case (Inl e)
    then have w: "?w = (Inl e, data)" using s by (metis prod.collapse)
    have "e = KeyError \<or> e = TypeError" using walk_items_error [OF w] .
    then show ?thesis using w f Inl kv by (auto simp: pair_holds_def)
  next
    case (Inr x)
    then have w: "?w = (Inr x, data)" using s by (metis prod.collapse)
    show ?thesis using w f Inr kv Cons by (auto simp: pair_holds_def)
  qed
qed

lemma check_groups_plain:
  "list_all (group_plain ed ps) groups \<Longrightarrow>
     check_groups groups ed ps = Inr (list_all (group_holds ed ps) groups, ed, ps)"
proof (induction groups)
  case Nil
  then show ?case by simp
next
  case (Cons g groups)
  obtain ct cv where g: "g = (ct, cv)" by (cases g)
  show ?case
  proof (cases cv)
    case (JDict pairs)
    then show ?thesis using Cons g
      by (auto simp: group_plain_def group_holds_def check_pairs_plain)
  qed (use Cons g in \<open>auto simp: group_plain_def group_holds_def\<close>)
qed

text \<open>
  The conditions of a handler as a conjunction. Provided no condition path reads a key that a
  defaultdict on the way lacks, \<^verbatim>\<open>_check_conditions\<close> returns true exactly when every
  group is named \<^verbatim>\<open>event_data\<close> or \<^verbatim>\<open>project_state\<close>, is a map, and each of its dotted
  paths resolves, in the event payload or the project state, to a value equal to the expected
  one; a missing segment, a value on the way that is not a map, a differing value and an
  unknown group name each fail the handler, the empty conditions map matches, and the event
  payload and the project state are left as they were.
\<close>

theorem check_conditions_conjunction:
  "list_all (group_plain ed ps) groups \<Longrightarrow>
     check_conditions (JDict groups) ed ps = Inr (list_all (group_holds ed ps) groups, ed, ps)"
  by (cases groups) (auto simp: check_conditions_def check_groups_plain simp del: check_groups.simps)

theorem check_conditions_conjunction_witness:
  "check_conditions
     (JDict [(''event_data'', JDict [(''content.status'', JStr ''failed'')]),
             (''project_state'', JDict [(''phase'', JStr ''qa'')])])
     (PDict [(''content'', PDict [(''status'', PStr ''failed'')])])
     (PDict [(''phase'', PStr ''qa'')])
   = Inr (True, PDict [(''content'', PDict [(''status'', PStr ''failed'')])],
          PDict [(''phase'', PStr ''qa'')])
   \<and> check_conditions
     (JDict [(''event_data'', JDict [(''content.status'', JStr ''failed'')]),
             (''project_state'', JDict [(''phase'', JStr ''qa'')])])
     (PDict [(''content'', PDict [(''status'', PStr ''failed'')])])
     (PDict [(''phase'', PStr ''coding'')])
   = Inr (False, PDict [(''content'', PDict [(''status'', PStr ''failed'')])],
          PDict [(''phase'', PStr ''coding'')])"
  using check_conditions_conjunction
     [of "PDict [(''content'', PDict [(''status'', PStr ''failed'')])]"
         "PDict [(''phase'', PStr ''qa'')]"
         "[(''event_data'', JDict [(''content.status'', JStr ''failed'')]),
             (''project_state'', JDict [(''phase'', JStr ''qa'')])]"]
    check_conditions_conjunction
     [of "PDict [(''content'', PDict [(''status'', PStr ''failed'')])]"
         "PDict [(''phase'', PStr ''coding'')]"
         "[(''event_data'', JDict [(''content.status'', JStr ''failed'')]),
             (''project_state'', JDict [(''phase'', JStr ''qa'')])]"]
  by (simp add: group_plain_def group_holds_def pair_holds_def)

text \<open>
  C2. A handler matches only if every dotted path of its conditions resolves and the value
  found equals the expected one; an absent key fails the handler, also when the expected
  value is falsy. The code departs from this where the key is absent from a defaultdict: in
  the project state of a fresh Orchestrator \<^verbatim>\<open>ctx-1\<close> is absent from
  \<^verbatim>\<open>module_test_retries\<close>, and the condition
  \<^verbatim>\<open>{"project_state": {"module_test_retries.ctx-1": 0}}\<close> matches, since the subscription
  raises no \<^verbatim>\<open>KeyError\<close> but stores and returns \<open>0\<close>.
\<close>

theorem check_conditions_absent_key_default:
  "get_path [''module_test_retries'', ''ctx-1''] initial_project_state = None \<and>
   (case check_conditions
      (JDict [(''project_state'', JDict [(''module_test_retries.ctx-1'', JInt 0)])])
      (PDict []) initial_project_state
    of Inl e \<Rightarrow> False | Inr (conditions_met, ed, ps) \<Rightarrow> conditions_met)"
  by (simp add: initial_project_state_def check_conditions_def)

subsection \<open>Selection of the handler\<close>

lemma handlers_loop_unmatched:
  "unmatched before ed ps = Some (ed1, ps1) \<Longrightarrow>
     handlers_loop (before @ rest) ed ps = handlers_loop rest ed1 ps1"
  by (induction before arbitrary: ed ps)
     (auto split: sum.splits prod.splits if_splits)

lemma process_actions_derived:
  "process_actions acc as ed ps = Inr out \<Longrightarrow>
     \<exists>new. out = acc @ new \<and>
       (\<forall>a \<in> set new. \<exists>items. JDict items \<in> set as \<and> a = executable_action items ed ps \<and>
           map_of items ''type'' \<noteq> None \<and> map_of items ''type'' \<noteq> Some (JStr ''check_condition''))"
proof (induction as arbitrary: acc)
  case Nil
  then show ?case by simp
next
  case (Cons a as)
  show ?case
  proof (cases a)
    case (JDict items)
    show ?thesis
    proof (cases "map_of items ''type''")
      case None
      then show ?thesis using Cons.prems JDict by simp
    next
      case (Some t)
      show ?thesis
      proof (cases "t = JStr ''check_condition''")
        case True
        then show ?thesis using Cons.prems Cons.IH [of acc] JDict Some
          by (fastforce split: sum.splits option.splits if_splits)
      next
        case False
        from Cons.prems JDict Some False
        have "process_actions (acc @ [executable_action items ed ps]) as ed ps = Inr out" by simp
        from Cons.IH [OF this] obtain new where
          new: "out = (acc @ [executable_action items ed ps]) @ new"
            "\<forall>a \<in> set new. \<exists>items. JDict items \<in> set as \<and> a = executable_action items ed ps \<and>
               map_of items ''type'' \<noteq> None \<and> map_of items ''type'' \<noteq> Some (JStr ''check_condition'')"
          by blast
        show ?thesis
          apply (rule exI [of _ "executable_action items ed ps # new"])
          using new JDict Some False by auto
      qed
    qed
  qed (use Cons.prems in auto)
qed





text \<open>
  C1. First match wins. When the handlers before a handler are evaluated without a match and
  the conditions of that handler hold, \<^verbatim>\<open>process_event\<close> returns what walking the actions
  of that handler gives, whatever handlers follow it: they are not evaluated, and every
  returned action is a copy of an action of that handler. When no handler matches, or the
  event type has no handlers, the returned list is empty.
\<close>

theorem process_event_first_match:
  "json_get cfg ''events'' = Inr (Some (JDict events)) \<Longrightarrow>
   (map_of events kind = Some (JList (before @ handler # later)) \<and>
    unmatched before ed ps = Some (ed', ps') \<and>
    json_get handler ''conditions'' = Inr found \<and>
    check_conditions (or_default (JDict []) found) ed' ps' = Inr (True, ed'', ps'') \<longrightarrow>
      process_event cfg kind ed ps = fire_handler handler ed'' ps'' \<and>
      (\<forall>config_actions out ed_out ps_out.
         json_get handler ''actions'' = Inr (Some (JList config_actions)) \<and>
         fire_handler handler ed'' ps'' = Inr (out, ed_out, ps_out) \<longrightarrow>
           ed_out = ed'' \<and> ps_out = ps'' \<and>
           (\<forall>a \<in> set out. \<exists>items. JDict items \<in> set config_actions \<and>
               a = executable_action items ed'' ps''))) \<and>
   (map_of events kind = Some (JList handlers) \<and>
    unmatched handlers ed ps = Some (ed', ps') \<longrightarrow>
      process_event cfg kind ed ps = Inr ([], ed', ps')) \<and>
   (map_of events kind = None \<longrightarrow> process_event cfg kind ed ps = Inr ([], ed, ps))"
proof (intro conjI impI allI)
  assume cfg: "json_get cfg ''events'' = Inr (Some (JDict events))"
  {
    assume h: "map_of events kind = Some (JList (before @ handler # later)) \<and>
      unmatched before ed ps = Some (ed', ps') \<and>
      json_get handler ''conditions'' = Inr found \<and>
      check_conditions (or_default (JDict []) found) ed' ps' = Inr (True, ed'', ps'')"
    then have "handlers_loop (before @ handler # later) ed ps = fire_handler handler ed'' ps''"
      by (simp add: handlers_loop_unmatched)
    then show "process_event cfg kind ed ps = fire_handler handler ed'' ps''"
      using cfg h by (simp add: process_event_def or_default_def)
  }
  {
    fix config_actions out ed_out ps_out
    assume a: "json_get handler ''actions'' = Inr (Some (JList config_actions)) \<and>
         fire_handler handler ed'' ps'' = Inr (out, ed_out, ps_out)"
    then have p: "process_actions [] config_actions ed'' ps'' = Inr out" and e: "ed_out = ed''" "ps_out = ps''"
      by (auto simp: fire_handler_def or_default_def split: sum.splits)
    show "ed_out = ed''" "ps_out = ps''" using e by simp_all
    show "\<forall>a \<in> set out. \<exists>items. JDict items \<in> set config_actions \<and>
               a = executable_action items ed'' ps''"
      using process_actions_derived [OF p] by auto
  }
  {
    assume h: "map_of events kind = Some (JList handlers) \<and>
      unmatched handlers ed ps = Some (ed', ps')"
    then have "handlers_loop (handlers @ []) ed ps = handlers_loop [] ed' ps'"
      using handlers_loop_unmatched by blast
    then show "process_event cfg kind ed ps = Inr ([], ed', ps')"
      using cfg h by (simp add: process_event_def or_default_def)
  }
  {
    assume "map_of events kind = None"
    then show "process_event cfg kind ed ps = Inr ([], ed, ps)"
      using cfg by (simp add: process_event_def or_default_def)
  }
qed

theorem process_event_first_match_witness:
  "process_event
     (JDict [(''events'', JDict [(''start'', JList
        [JDict [(''conditions'', JDict [(''event_data'', JDict [(''kind'', JStr ''other'')])]),
                (''actions'', JList [JDict [(''type'', JStr ''update_state'')]])],
         JDict [(''conditions'', JDict []),
                (''actions'', JList [JDict [(''type'', JStr ''delegate_task''),
                                            (''agent'', JStr ''Dream Weaver'')]])],
         JDict [(''actions'', JList [JDict [(''type'', JStr ''delegate_task''),
                                            (''agent'', JStr ''Master Builder'')]])]])])])
     ''start'' (PDict [(''user_idea'', PStr ''X'')]) (PDict [])
   = Inr ([PDict [(''type'', PStr ''delegate_task''), (''agent'', PStr ''Dream Weaver''),
                  (''_event_data'', PDict [(''user_idea'', PStr ''X'')]),
                  (''_project_state'', PDict [])]],
          PDict [(''user_idea'', PStr ''X'')], PDict [])"
  using process_event_first_match
    [where cfg = "JDict [(''events'', JDict [(''start'', JList
        [JDict [(''conditions'', JDict [(''event_data'', JDict [(''kind'', JStr ''other'')])]),
                (''actions'', JList [JDict [(''type'', JStr ''update_state'')]])],
         JDict [(''conditions'', JDict []),
                (''actions'', JList [JDict [(''type'', JStr ''delegate_task''),
                                            (''agent'', JStr ''Dream Weaver'')]])],
         JDict [(''actions'', JList [JDict [(''type'', JStr ''delegate_task''),
                                            (''agent'', JStr ''Master Builder'')]])]])])]"
      and events = "[(''start'', JList
        [JDict [(''conditions'', JDict [(''event_data'', JDict [(''kind'', JStr ''other'')])]),
                (''actions'', JList [JDict [(''type'', JStr ''update_state'')]])],
         JDict [(''conditions'', JDict []),
                (''actions'', JList [JDict [(''type'', JStr ''delegate_task''),
                                            (''agent'', JStr ''Dream Weaver'')]])],
         JDict [(''actions'', JList [JDict [(''type'', JStr ''delegate_task''),
                                            (''agent'', JStr ''Master Builder'')]])]])]"
      and kind = "''start''"
      and before = "[JDict [(''conditions'', JDict [(''event_data'', JDict [(''kind'', JStr ''other'')])]),
                (''actions'', JList [JDict [(''type'', JStr ''update_state'')]])]]"
      and handler = "JDict [(''conditions'', JDict []),
                (''actions'', JList [JDict [(''type'', JStr ''delegate_task''),
                                            (''agent'', JStr ''Dream Weaver'')]])]"
      and later = "[JDict [(''actions'', JList [JDict [(''type'', JStr ''delegate_task''),
                                            (''agent'', JStr ''Master Builder'')]])]]"
      and found = "Some (JDict [])"
      and ed = "PDict [(''user_idea'', PStr ''X'')]" and ps = "PDict []"
      and ed' = "PDict [(''user_idea'', PStr ''X'')]" and ps' = "PDict []"
      and ed'' = "PDict [(''user_idea'', PStr ''X'')]" and ps'' = "PDict []"]
  by (simp add: check_conditions_def or_default_def fire_handler_def executable_action_def)

subsection \<open>Conditions among the actions\<close>



subsection \<open>Path-based state update\<close>

lemma py_split_nonempty: "py_split c s \<noteq> []"
  by (induction s) (auto split: list.splits)

lemma update_at_writes:
  "get_path parents d = Some x \<Longrightarrow> is_dict x \<Longrightarrow>
     get_path (parents @ [last_key]) (update_at parents last_key v d) = Some v"
proof (induction parents arbitrary: d)
  case Nil
  then show ?case by (cases d) (auto simp: update_conv')
next
  case (Cons key keys)
  then show ?case by (cases d) (auto simp: update_conv' split: option.splits)
qed

lemma update_at_noop:
  "\<not> (\<exists>x. get_path parents d = Some x \<and> is_dict x) \<Longrightarrow> update_at parents last_key v d = d"
proof (induction parents arbitrary: d)
  case Nil
  then show ?case by simp
next
  case (Cons key keys)
  then show ?case by (cases d) (auto simp: update_same split: option.splits)
qed

lemma update_at_frame:
  "\<not> prefix q (parents @ [last_key]) \<Longrightarrow> \<not> prefix (parents @ [last_key]) q \<Longrightarrow>
     get_path q (update_at parents last_key v d) = get_path q d"
proof (induction parents arbitrary: d q)
  case Nil
  then show ?case
    by (cases q; cases d) (auto simp: update_conv')
next
  case (Cons key keys)
  show ?case
  proof (cases q)
    case Nil
    then show ?thesis using Cons.prems by simp
  next
    case (Cons k qs)
    show ?thesis
    proof (cases "k = key")
      case True
      with Cons.prems Cons have "\<not> prefix qs (keys @ [last_key])" "\<not> prefix (keys @ [last_key]) qs"
        by auto
      then have "\<And>c. get_path qs (update_at keys last_key v c) = get_path qs c"
        using Cons.IH by blast
      then show ?thesis using Cons True
        by (cases d) (auto simp: update_conv' split: option.splits)
    next
      case False
      then show ?thesis using Cons
        by (cases d) (auto simp: update_conv' split: option.splits)
    qed
  qed
qed

text \<open>
  C7. For every path and value, \<^verbatim>\<open>_update_project_state\<close> either stores the value under
  the path (when the keys before the last one lead through existing entries to a dict) and
  leaves the entry under every path that neither leads to the written entry nor lies below it
  as it was, or leaves the project state as it was; it has no failing branch.
\<close>

theorem update_project_state_frame:
  "((\<exists>d. get_path (butlast (py_split (CHR ''.'') path)) ps = Some d \<and> is_dict d) \<longrightarrow>
      get_path (py_split (CHR ''.'') path) (update_project_state path v ps) = Some v \<and>
      (\<forall>q. \<not> prefix q (py_split (CHR ''.'') path) \<and> \<not> prefix (py_split (CHR ''.'') path) q \<longrightarrow>
         get_path q (update_project_state path v ps) = get_path q ps)) \<and>
   (\<not> (\<exists>d. get_path (butlast (py_split (CHR ''.'') path)) ps = Some d \<and> is_dict d) \<longrightarrow>
      update_project_state path v ps = ps)"
proof -
  let ?keys = "py_split (CHR ''.'') path"
  have k: "butlast ?keys @ [last ?keys] = ?keys"
    using py_split_nonempty by simp
  show ?thesis
    unfolding update_project_state_def Let_def
    using update_at_writes [of "butlast ?keys" ps _ "last ?keys" v]
      update_at_frame [of _ "butlast ?keys" "last ?keys" v ps]
      update_at_noop [of "butlast ?keys" ps "last ?keys" v]
    by (auto simp: k)
qed

theorem update_project_state_frame_witness:
  "get_path [''code_modules_status'', ''m1'']
     (update_project_state ''code_modules_status.m1'' (PStr ''coding'') initial_project_state)
     = Some (PStr ''coding'')
   \<and> get_path [''status'']
     (update_project_state ''code_modules_status.m1'' (PStr ''coding'') initial_project_state)
     = Some (PStr ''Idle'')
   \<and> update_project_state ''concept_brief.purpose'' (PStr ''x'') initial_project_state
     = initial_project_state
   \<and> update_project_state ''no_such_key.purpose'' (PStr ''x'') initial_project_state
     = initial_project_state"
  using update_project_state_frame
      [where path = "''code_modules_status.m1''" and v = "PStr ''coding''"
         and ps = initial_project_state]
    update_project_state_frame
      [where path = "''concept_brief.purpose''" and v = "PStr ''x''"
         and ps = initial_project_state]
    update_project_state_frame
      [where path = "''no_such_key.purpose''" and v = "PStr ''x''"
         and ps = initial_project_state]
  by (simp add: initial_project_state_def)

subsection \<open>Templates\<close>


lemma after_prefix_iff: "after_prefix p s = Some r \<longleftrightarrow> s = p @ r"
  by (induction p s rule: after_prefix.induct) auto

lemma after_prefix_append [simp]: "after_prefix p (p @ r) = Some r"
  by (simp add: after_prefix_iff)














lemma pieces_text_Cons [simp]: "pieces_text (p # ps) = piece_text p @ pieces_text ps"
  by (simp add: pieces_text_def)

lemma pieces_text_Nil [simp]: "pieces_text [] = []"
  by (simp add: pieces_text_def)












lemma get_path_None [simp]: "get_path (k # ks) PNone = None"
  by simp









subsection \<open>Delegation and the retry counters\<close>

lemma on_result_simps [simp]:
  "on_result (Inr x) f = f x" "on_result (Inl err) f = Inl err"
  by (simp_all add: on_result_def)

lemma py_item_PDict [simp]:
  "py_item (PDict d) k = (case map_of d k of None \<Rightarrow> Inl KeyError | Some x \<Rightarrow> Inr x)"
  by (simp add: py_item_def split: option.splits)

lemma py_getitem_again:
  "fst (py_getitem (snd (py_getitem m c)) k) = fst (py_getitem m k)"
  by (cases m) (auto split: option.splits if_splits)

lemma py_getitem_settled:
  "snd (py_getitem (snd (py_getitem m c)) c) = snd (py_getitem m c)"
  by (cases m) (auto split: option.splits)

lemma map_of_inbox_update:
  "map_of (map (\<lambda>(n, a). if n = k then (n, f a) else (n, a)) ags) k = map_option f (map_of ags k)"
  by (induction ags) auto

lemma choose_context_id_event:
  assumes "map_of a ''use_event_context_id'' = Some u" "py_truthy u"
    and "map_of ed ''context_id'' = Some cid" "py_truthy cid"
  shows "choose_context_id e (PDict a) (PDict ed) st = Inr cid"
  using assms by (simp add: choose_context_id_def Let_def or_default_def)

lemma delegate_task_known:
  assumes "map_of (agents st) an = Some ag" "c \<noteq> []" "project_state st = PDict ps"
    and "map_of ps ''current_task_contexts'' = Some contexts" "is_dict contexts"
  shows "delegate_task e (PStr an) tn (PDict cont) (PStr c) st =
     Inr (st\<lparr>project_state :=
                PDict (AList.update ''current_task_contexts''
                  (py_setitem contexts c
                     (PDict [(''task_name'', tn), (''agent'', PStr an),
                             (''original_content'', PDict cont)])) ps),
              agents :=
                map (\<lambda>(n, a).
                       if n = an then
                         (n, receive_message a
                               (PDict [(''sender'', PStr ''Orchestrator''),
                                       (''type'', PStr ''task''),
                                       (''content'', PDict (AList.update ''task_name'' tn cont)),
                                       (''context_id'', PStr c)]))
                       else (n, a))
                  (agents st)\<rparr>)"
  using assms
  by (simp add: delegate_task_def in_agents_def Let_def py_setitem_checked_def)

lemma current_retries_shape:
  assumes "an = ''Quality Guardian'' \<or> an = ''Deployment Master''"
    and "current_retries (PStr an) (PStr c) (PDict ps) = Inr (n, ps1)"
  shows "(an = ''Quality Guardian'' \<and>
          (\<exists>m. map_of ps ''module_test_retries'' = Some m \<and> fst (py_getitem m c) = Inr n \<and>
               ps1 = PDict (AList.update ''module_test_retries'' (snd (py_getitem m c)) ps))) \<or>
         (an = ''Deployment Master'' \<and> map_of ps ''deployment_retries'' = Some n \<and> ps1 = PDict ps)"
  using assms
  by (auto simp: current_retries_def split: option.splits prod.splits sum.splits)

lemma retries_preserved_qg:
  assumes "map_of ps ''module_test_retries'' = Some m"
  shows "map_sum id fst (current_retries a' c'
           (PDict (AList.update ''current_task_contexts'' x
                    (AList.update ''module_test_retries'' (snd (py_getitem m c)) ps)))) =
         map_sum id fst (current_retries a' c' (PDict ps))"
proof (cases "py_eq a' (PStr ''Quality Guardian'')")
  case True
  show ?thesis
  proof (cases c')
    case (PStr k)
    have "fst (py_getitem (snd (py_getitem m c)) k) = fst (py_getitem m k)"
      by (rule py_getitem_again)
    then show ?thesis using True PStr assms
      by (cases "py_getitem (snd (py_getitem m c)) k"; cases "py_getitem m k")
         (auto simp: current_retries_def update_conv' split: sum.splits)
  qed (use True assms in \<open>auto simp: current_retries_def update_conv'\<close>)
next
  case False
  then show ?thesis
    by (auto simp: current_retries_def update_conv' split: option.splits)
qed

lemma retries_preserved_dm:
  "map_sum id fst (current_retries a' c'
       (PDict (AList.update ''current_task_contexts'' x ps))) =
   map_sum id fst (current_retries a' c' (PDict ps))"
  by (cases c')
     (auto simp: current_retries_def update_conv' split: option.splits prod.splits sum.splits)

lemma delegate_with_retries_plain:
  assumes "an \<noteq> ''Quality Guardian''" "an \<noteq> ''Deployment Master''"
    and "map_of (agents st) an = Some ag" "c \<noteq> []" "project_state st = PDict ps"
    and "map_of ps ''current_task_contexts'' = Some contexts" "is_dict contexts"
  shows "\<exists>st'. delegate_with_retries e (PStr an) tn (PDict cont) (PStr c) st = Inr st' \<and>
           ticks st' = ticks st \<and>
           map_of (agents st') an =
             Some (ag\<lparr>inbox := inbox ag @
                      [task_message (PDict (AList.update ''task_name'' tn cont)) (PStr c)]\<rparr>)"
proof -
  have "delegate_with_retries e (PStr an) tn (PDict cont) (PStr c) st =
        delegate_task e (PStr an) tn (PDict cont) (PStr c) st"
    using assms(1,2,4) by (auto simp: delegate_with_retries_def Let_def)
  then show ?thesis
    using delegate_task_known [OF assms(3-7), of e tn cont] assms(3)
    by (simp add: map_of_inbox_update receive_message_def task_message_def)
qed

lemma delegate_with_retries_retryable:
  assumes an: "an = ''Quality Guardian'' \<or> an = ''Deployment Master''"
    and ag: "map_of (agents st) an = Some ag" and c: "c \<noteq> []"
    and ps: "project_state st = PDict ps"
    and ctc: "map_of ps ''current_task_contexts'' = Some contexts" "is_dict contexts"
    and cr: "current_retries (PStr an) (PStr c) (PDict ps) = Inr (n, ps1)"
  shows "\<exists>st'. delegate_with_retries e (PStr an) tn (PDict cont) (PStr c) st = Inr st' \<and>
           ticks st' = ticks st \<and>
           map_of (agents st') an =
             Some (ag\<lparr>inbox := inbox ag @
                      [task_message
                         (PDict (AList.update ''task_name'' tn
                                   (AList.update ''retry_attempt'' n cont))) (PStr c)]\<rparr>) \<and>
           current_retries (PStr an) (PStr c) (project_state st') = Inr (n, project_state st') \<and>
           (\<forall>a' c'. map_sum id fst (current_retries a' c' (project_state st')) =
                     map_sum id fst (current_retries a' c' (project_state st)))"
proof -
  let ?cont = "AList.update ''retry_attempt'' n cont"
  let ?entry = "PDict [(''task_name'', tn), (''agent'', PStr an),
                       (''original_content'', PDict ?cont)]"
  have step: "delegate_with_retries e (PStr an) tn (PDict cont) (PStr c) st =
        delegate_task e (PStr an) tn (PDict ?cont) (PStr c) (st\<lparr>project_state := ps1\<rparr>)"
    using an c ps cr
    by (auto simp: delegate_with_retries_def Let_def py_setitem_checked_def)
  from current_retries_shape [OF an cr]
  show ?thesis
  proof (elim disjE conjE exE)
    fix m
    assume q: "an = ''Quality Guardian''" and m: "map_of ps ''module_test_retries'' = Some m"
      and r: "fst (py_getitem m c) = Inr n"
      and p1: "ps1 = PDict (AList.update ''module_test_retries'' (snd (py_getitem m c)) ps)"
    let ?ps1 = "AList.update ''module_test_retries'' (snd (py_getitem m c)) ps"
    let ?st1 = "st\<lparr>project_state := ps1\<rparr>"
    let ?ps2 = "AList.update ''current_task_contexts'' (py_setitem contexts c ?entry) ?ps1"
    have a1: "map_of (agents ?st1) an = Some ag" using ag by simp
    have s1: "project_state ?st1 = PDict ?ps1" using p1 by simp
    have c1: "map_of ?ps1 ''current_task_contexts'' = Some contexts"
      using ctc(1) by (simp add: update_conv')
    note d = delegate_task_known [OF a1 c s1 c1 ctc(2), of e tn ?cont]
    have m2: "map_of ?ps2 ''module_test_retries'' = Some (snd (py_getitem m c))"
      by (simp add: update_conv')
    have again: "py_getitem (snd (py_getitem m c)) c = (Inr n, snd (py_getitem m c))"
      using py_getitem_again [of m c c] py_getitem_settled [of m c] r
      by (metis prod.collapse)
    have u: "AList.update ''module_test_retries'' (snd (py_getitem m c)) ?ps2 = ?ps2"
      using m2 by (rule update_same)
    have third: "current_retries (PStr an) (PStr c) (PDict ?ps2) = Inr (n, PDict ?ps2)"
      using q m2 again u by (simp add: current_retries_def)
    have fourth: "\<forall>a' c'. map_sum id fst (current_retries a' c' (PDict ?ps2)) =
                     map_sum id fst (current_retries a' c' (PDict ps))"
      using retries_preserved_qg [OF m] by blast
    show ?thesis
      unfolding step d
      using ag ps third fourth
      by (simp add: map_of_inbox_update receive_message_def task_message_def)
  next
    assume q: "an = ''Deployment Master''" and n: "map_of ps ''deployment_retries'' = Some n"
      and p1: "ps1 = PDict ps"
    let ?st1 = "st\<lparr>project_state := ps1\<rparr>"
    let ?ps2 = "AList.update ''current_task_contexts'' (py_setitem contexts c ?entry) ps"
    have a1: "map_of (agents ?st1) an = Some ag" using ag by simp
    have s1: "project_state ?st1 = PDict ps" using p1 by simp
    note d = delegate_task_known [OF a1 c s1 ctc, of e tn ?cont]
    have third: "current_retries (PStr an) (PStr c) (PDict ?ps2) = Inr (n, PDict ?ps2)"
      using q n by (simp add: current_retries_def update_conv')
    have fourth: "\<forall>a' c'. map_sum id fst (current_retries a' c' (PDict ?ps2)) =
                     map_sum id fst (current_retries a' c' (PDict ps))"
      using retries_preserved_dm by blast
    show ?thesis
      unfolding step d
      using ag ps third fourth
      by (simp add: map_of_inbox_update receive_message_def task_message_def)
  qed
qed


lemma execute_delegate_task_event_context:
  assumes "map_of a ''agent'' = Some (PStr an)" "an \<noteq> []"
    and "map_of a ''task'' = Some tn" "py_truthy tn"
    and "map_of a ''use_event_context_id'' = Some u" "py_truthy u"
    and "map_of ed ''context_id'' = Some (PStr c)" "c \<noteq> []"
    and "substitute_template (getattr_or_none e) (or_default (PDict []) (map_of a ''content''))
           (PDict ed) (project_state st) = PDict cont"
  shows "execute_delegate_task e (PDict a) (PDict ed) st =
           delegate_with_retries e (PStr an) tn (PDict cont) (PStr c) st"
proof -
  have "choose_context_id e (PDict a) (PDict ed) st = Inr (PStr c)"
    using assms(5-8) by (intro choose_context_id_event) auto
  then show ?thesis
    using assms(1-4,9) by (simp add: execute_delegate_task_def Let_def or_default_def)
qed

text \<open>
  C5. A \<^verbatim>\<open>delegate_task\<close> action with \<^verbatim>\<open>use_event_context_id\<close> set, executed for an
  event that carries a context id, delegates under that context id and mints none: the task
  message in the inbox of the agent carries it. For the Quality Guardian and the Deployment
  Master the retry count read for that context (from \<^verbatim>\<open>module_test_retries\<close> for the
  former, the one \<^verbatim>\<open>deployment_retries\<close> for the latter) is stored into the payload as
  \<^verbatim>\<open>retry_attempt\<close>; a second read under the same context id gives the same count, and
  the delegation changes the count read under no context id.
\<close>

theorem delegate_reuses_event_context:
  assumes "map_of a ''agent'' = Some (PStr an)" "an \<noteq> []"
    and "map_of a ''task'' = Some tn" "py_truthy tn"
    and "map_of a ''use_event_context_id'' = Some u" "py_truthy u"
    and "map_of ed ''context_id'' = Some (PStr c)" "c \<noteq> []"
    and "substitute_template (getattr_or_none e) (or_default (PDict []) (map_of a ''content''))
           (PDict ed) (project_state st) = PDict cont"
    and "map_of (agents st) an = Some ag"
    and "project_state st = PDict ps"
    and "map_of ps ''current_task_contexts'' = Some contexts" "is_dict contexts"
  shows "(an \<noteq> ''Quality Guardian'' \<and> an \<noteq> ''Deployment Master'' \<longrightarrow>
           (\<exists>st'. execute_delegate_task e (PDict a) (PDict ed) st = Inr st' \<and>
              ticks st' = ticks st \<and>
              map_of (agents st') an =
                Some (ag\<lparr>inbox := inbox ag @
                         [task_message (PDict (AList.update ''task_name'' tn cont)) (PStr c)]\<rparr>))) \<and>
         ((an = ''Quality Guardian'' \<or> an = ''Deployment Master'') \<and>
          current_retries (PStr an) (PStr c) (project_state st) = Inr (retries, ps') \<longrightarrow>
           (\<exists>st'. execute_delegate_task e (PDict a) (PDict ed) st = Inr st' \<and>
              ticks st' = ticks st \<and>
              map_of (agents st') an =
                Some (ag\<lparr>inbox := inbox ag @
                         [task_message
                            (PDict (AList.update ''task_name'' tn
                                      (AList.update ''retry_attempt'' retries cont))) (PStr c)]\<rparr>) \<and>
              current_retries (PStr an) (PStr c) (project_state st') =
                Inr (retries, project_state st') \<and>
              (\<forall>a' c'. map_sum id fst (current_retries a' c' (project_state st')) =
                        map_sum id fst (current_retries a' c' (project_state st)))) \<and>
           (an = ''Quality Guardian'' \<longrightarrow>
              (\<exists>m. map_of ps ''module_test_retries'' = Some m \<and>
                   fst (py_getitem m c) = Inr retries)) \<and>
           (an = ''Deployment Master'' \<longrightarrow> map_of ps ''deployment_retries'' = Some retries))"
proof (intro conjI impI)
  note x = execute_delegate_task_event_context [OF assms(1-9)]
  {
    assume "an \<noteq> ''Quality Guardian'' \<and> an \<noteq> ''Deployment Master''"
    then show "\<exists>st'. execute_delegate_task e (PDict a) (PDict ed) st = Inr st' \<and>
              ticks st' = ticks st \<and>
              map_of (agents st') an =
                Some (ag\<lparr>inbox := inbox ag @
                         [task_message (PDict (AList.update ''task_name'' tn cont)) (PStr c)]\<rparr>)"
      unfolding x
      using delegate_with_retries_plain [OF _ _ assms(10) assms(8) assms(11-13), of e tn cont]
      by blast
  }
  {
    assume h: "(an = ''Quality Guardian'' \<or> an = ''Deployment Master'') \<and>
          current_retries (PStr an) (PStr c) (project_state st) = Inr (retries, ps')"
    then have cr: "current_retries (PStr an) (PStr c) (PDict ps) = Inr (retries, ps')"
      using assms(11) by simp
    from h have an: "an = ''Quality Guardian'' \<or> an = ''Deployment Master''" by simp
    show "\<exists>st'. execute_delegate_task e (PDict a) (PDict ed) st = Inr st' \<and>
              ticks st' = ticks st \<and>
              map_of (agents st') an =
                Some (ag\<lparr>inbox := inbox ag @
                         [task_message
                            (PDict (AList.update ''task_name'' tn
                                      (AList.update ''retry_attempt'' retries cont))) (PStr c)]\<rparr>) \<and>
              current_retries (PStr an) (PStr c) (project_state st') =
                Inr (retries, project_state st') \<and>
              (\<forall>a' c'. map_sum id fst (current_retries a' c' (project_state st')) =
                        map_sum id fst (current_retries a' c' (project_state st)))"
      unfolding x
      using delegate_with_retries_retryable [OF an assms(10) assms(8) assms(11-13) cr, of e tn cont]
      by blast
    {
      assume "an = ''Quality Guardian''"
      then show "\<exists>m. map_of ps ''module_test_retries'' = Some m \<and>
                   fst (py_getitem m c) = Inr retries"
        using current_retries_shape [OF an cr] by auto
    }
    {
      assume "an = ''Deployment Master''"
      then show "map_of ps ''deployment_retries'' = Some retries"
        using current_retries_shape [OF an cr] by auto
    }
  }
qed

theorem delegate_reuses_event_context_witness:
  "map_sum id (\<lambda>st. (map_of (agents st) ''Quality Guardian'', ticks st))
     (execute_delegate_task example_env
        (PDict [(''type'', PStr ''delegate_task''), (''agent'', PStr ''Quality Guardian''),
                (''task'', PStr ''run_tests''), (''use_event_context_id'', PBool True),
                (''content'', PDict [(''module_name'', PStr ''{{event.response}}'')])])
        (PDict [(''response'', PStr ''yes''), (''context_id'', PStr ''ctx-1'')])
        (initial_orchestrator\<lparr>project_state :=
           update_project_state ''module_test_retries.ctx-1'' (PInt 2) initial_project_state\<rparr>))
   = Inr (Some \<lparr>name = ''Quality Guardian'',
                inbox = [task_message
                           (PDict [(''module_name'', PStr ''yes''), (''retry_attempt'', PInt 2),
                                   (''task_name'', PStr ''run_tests'')])
                           (PStr ''ctx-1'')],
                attached = True\<rparr>, 6)"
  using delegate_reuses_event_context
    [where e = example_env
       and a = "[(''type'', PStr ''delegate_task''), (''agent'', PStr ''Quality Guardian''),
                (''task'', PStr ''run_tests''), (''use_event_context_id'', PBool True),
                (''content'', PDict [(''module_name'', PStr ''{{event.response}}'')])]"
       and ed = "[(''response'', PStr ''yes''), (''context_id'', PStr ''ctx-1'')]"
       and st = "initial_orchestrator\<lparr>project_state :=
           update_project_state ''module_test_retries.ctx-1'' (PInt 2) initial_project_state\<rparr>"
       and an = "''Quality Guardian''" and tn = "PStr ''run_tests''" and u = "PBool True"
       and c = "''ctx-1''" and cont = "[(''module_name'', PStr ''yes'')]"
       and ag = "\<lparr>name = ''Quality Guardian'', inbox = [], attached = True\<rparr>"
       and ps = "[(''status'', PStr ''Idle''),
      (''current_phase'', PStr ''Initiation''),
      (''pending_human_approval_context'', PNone),
      (''app_idea'', PNone),
      (''concept_brief'', PNone),
      (''technical_blueprint'', PNone),
      (''tech_stack_proposal'', PNone),
      (''ui_ux_prototype_url'', PNone),
      (''design_guidelines'', PNone),
      (''code_modules_status'', PDict []),
      (''test_results'', PDict []),
      (''module_test_retries'', PDefaultDict [(''ctx-1'', PInt 2)]),
      (''deployment_retries'', PInt 0),
      (''final_app_url'', PNone),
      (''selected_deployment_target'', PNone),
      (''current_task_contexts'', PDict []),
      (''escalated_issues'', PDict [])]"
       and contexts = "PDict []" and retries = "PInt 2"
       and ps' = "PDict [(''status'', PStr ''Idle''),
      (''current_phase'', PStr ''Initiation''),
      (''pending_human_approval_context'', PNone),
      (''app_idea'', PNone),
      (''concept_brief'', PNone),
      (''technical_blueprint'', PNone),
      (''tech_stack_proposal'', PNone),
      (''ui_ux_prototype_url'', PNone),
      (''design_guidelines'', PNone),
      (''code_modules_status'', PDict []),
      (''test_results'', PDict []),
      (''module_test_retries'', PDefaultDict [(''ctx-1'', PInt 2)]),
      (''deployment_retries'', PInt 0),
      (''final_app_url'', PNone),
      (''selected_deployment_target'', PNone),
      (''current_task_contexts'', PDict []),
      (''escalated_issues'', PDict [])]"]
  by (clarsimp simp: example_env_def initial_orchestrator_def initial_project_state_def
        new_agent_def update_project_state_def current_retries_def task_message_def
        substitute_string_def match_token_def match_rest_def path_char_def is_word_def
        token_def replacement_def render_def no_attribute_def lookup_step_def or_default_def
        py_str_def)



subsection \<open>Worker activation\<close>

text \<open>
  An activation pops at most one message. For a task message with a dict payload and a
  context id that the log line can slice, it sends exactly one message to the Orchestrator,
  with that context id: a \<^verbatim>\<open>result\<close> when the handler returns a dict, a
  \<^verbatim>\<open>status_update\<close> with status \<^verbatim>\<open>failed\<close> when the handler raises.
\<close>

lemma process_pending_tasks_empty: "inbox a = [] \<Longrightarrow> process_pending_tasks e a queue t = Inr (a, queue, t)"
  by (simp add: process_pending_tasks_def)

lemma process_pending_tasks_replies:
  assumes "inbox a = PDict m # rest" "map_of m ''type'' = Some (PStr ''task'')"
    and "map_of m ''content'' = Some (PDict tc)"
    and "or_default (PStr ''NoContext'') (map_of m ''context_id'') = cid" "sliceable cid"
    and "attached a"
  shows "\<exists>msg. process_pending_tasks e a queue t = Inr (a\<lparr>inbox := rest\<rparr>, queue @ [PDict msg], t + 2) \<and>
           map_of msg ''recipient'' = Some (PStr ''Orchestrator'') \<and>
           map_of msg ''context_id'' = Some cid \<and>
           (\<forall>r. process_task e (name a) t (PDict tc) = Inr r \<and> is_dict r \<longrightarrow>
                map_of msg ''type'' = Some (PStr ''result'') \<and>
                map_of msg ''content'' =
                  Some (py_setitem r ''task_name''
                          (or_default (PStr ''Unnamed Task'') (map_of tc ''task_name'')))) \<and>
           ((\<exists>raised. process_task e (name a) t (PDict tc) = Inl raised) \<or>
            (\<exists>r. process_task e (name a) t (PDict tc) = Inr r \<and> \<not> is_dict r) \<longrightarrow>
                map_of msg ''type'' = Some (PStr ''status_update'') \<and>
                (\<exists>c. map_of msg ''content'' = Some (PDict c) \<and>
                     map_of c ''status'' = Some (PStr ''failed'')))"
proof (cases "process_task e (name a) t (PDict tc)")
  case (Inl raised)
  then show ?thesis using assms
    by (auto simp: process_pending_tasks_def Let_def send_message_def)
next
  case (Inr r)
  then show ?thesis using assms
    by (cases "is_dict r")
       (auto simp: process_pending_tasks_def Let_def send_message_def py_setitem_checked_def)
qed


subsection \<open>The simulation cycle\<close>


end
